theory Spec2Isabelle
  imports Main "HOL-Library.Word"
begin

unbundle bit_operations_syntax

section \<open>Plain data shared by the driver and the tools\<close>

type_synonym NTSTATUS = "32 word"
type_synonym ULONG = "32 word"
type_synonym UCHAR = "8 word"
type_synonym WCHAR = "16 word"

text \<open>The status codes the sources name, with the values of the platform headers.\<close>

definition STATUS_SUCCESS :: NTSTATUS where
  "STATUS_SUCCESS = 0"

definition STATUS_TIMEOUT :: NTSTATUS where
  "STATUS_TIMEOUT = 0x102"

definition STATUS_UNSUCCESSFUL :: NTSTATUS where
  "STATUS_UNSUCCESSFUL = 0xC0000001"

definition STATUS_INVALID_PARAMETER :: NTSTATUS where
  "STATUS_INVALID_PARAMETER = 0xC000000D"

definition STATUS_NO_SUCH_DEVICE :: NTSTATUS where
  "STATUS_NO_SUCH_DEVICE = 0xC000000E"

definition STATUS_INSUFFICIENT_RESOURCES :: NTSTATUS where
  "STATUS_INSUFFICIENT_RESOURCES = 0xC000009A"

definition STATUS_NOT_SUPPORTED :: NTSTATUS where
  "STATUS_NOT_SUPPORTED = 0xC00000BB"

section \<open>driver/vhci/pnp.cpp: the data model\<close>

text \<open>
  \<open>vdev_type_t\<close>: the enumeration is declared in a header; its members and their order are
  those of the table \<open>vdev_desc\<close>, whose length the source asserts to be \<open>VDEV_SIZE\<close>.
\<close>

datatype vdev_type_t = VDEV_ROOT | VDEV_CPDO | VDEV_VHCI | VDEV_HPDO | VDEV_VHUB | VDEV_VPDO

fun vdev_type_index :: "vdev_type_t \<Rightarrow> nat" where
  "vdev_type_index VDEV_ROOT = 0"
| "vdev_type_index VDEV_CPDO = 1"
| "vdev_type_index VDEV_VHCI = 2"
| "vdev_type_index VDEV_HPDO = 3"
| "vdev_type_index VDEV_VHUB = 4"
| "vdev_type_index VDEV_VPDO = 5"

datatype pnp_state =
  NotStarted | Started | StopPending | Stopped | RemovePending | SurpriseRemovePending | Removed

text \<open>
  The fields of \<open>vdev_t\<close> that pnp.cpp reads or writes. \<open>devobj_lower\<close> is a pointer
  (\<open>None\<close> is the null pointer). \<open>intf_ref_event\<close> is the kernel event the removal gate
  polls: \<open>True\<close> when it is signalled.
\<close>

record vdev_t =
  type :: vdev_type_t
  PnPState :: pnp_state
  PreviousPnPState :: pnp_state
  devobj_lower :: "nat option"
  intf_ref_cnt :: int
  intf_ref_event :: bool

datatype GUID = GUID_BUS_TYPE_USB

datatype INTERFACE_TYPE = PNPBus

record PNP_BUS_INFORMATION =
  BusTypeGuid :: GUID
  LegacyBusType :: INTERFACE_TYPE
  BusNumber :: ULONG

text \<open>
  \<open>IoStatus.Information\<close> is a pointer-sized word that a handler fills with flag bits or
  with a pointer to a block it allocated; a pointer is modelled by what it points to.
  The null value is \<open>Info_bits 0\<close>.
\<close>

datatype information =
  Info_bits "64 word"
| Info_wstr string
| Info_bus PNP_BUS_INFORMATION

fun is_null :: "information \<Rightarrow> bool" where
  "is_null (Info_bits w) = (w = 0)"
| "is_null (Info_wstr s) = False"
| "is_null (Info_bus b) = False"

record IO_STATUS_BLOCK =
  Status :: NTSTATUS
  Information :: information

text \<open>
  The request: its status block and, of the current stack location, the minor function code
  and the \<open>QueryDeviceText\<close> parameter.
\<close>

record IRP =
  IoStatus :: IO_STATUS_BLOCK
  MinorFunction :: UCHAR
  DeviceTextType :: int

definition DeviceTextDescription :: int where
  "DeviceTextDescription = 0"

definition DeviceTextLocationInformation :: int where
  "DeviceTextLocationInformation = 1"

datatype DEVICE_REGISTRY_PROPERTY =
  DevicePropertyDeviceDescription | DevicePropertyLocationInformation

definition PNP_DEVICE_REMOVED :: "64 word" where
  "PNP_DEVICE_REMOVED = 0x8"

text \<open>
  What a handler does to the outside world is the list of calls it makes, in order, to
  functions that leave the file: forwarding the request to the lower device object,
  completing it with a given status, completing it with the status it carries, and
  unplugging a port from the hub. The value a handler returns is the value its last call
  returns.
\<close>

datatype call =
  Call_irp_pass_down "nat option"
| Call_CompleteRequest NTSTATUS
| Call_CompleteRequestAsIs
| Call_vhub_unplug_vpdo

type_synonym result = "vdev_t \<times> IRP \<times> call list"

text \<open>The handlers of the dispatch table that are defined in other files.\<close>

datatype absent_handler =
  pnp_start_device
| pnp_remove_device
| pnp_query_device_relations
| pnp_query_interface
| pnp_query_capabilities
| pnp_query_resources
| pnp_query_resource_requirements
| pnp_filter_resource_requirements
| pnp_query_id

text \<open>
  Everything pnp.cpp calls and does not define is a parameter: the predicate \<open>is_fdo\<close>,
  the registry lookup \<open>GetDeviceProperty\<close> and \<open>get_product\<close> (a null result is
  \<open>None\<close>), the string duplication \<open>libdrv_strdup\<close> (\<open>None\<close> when the allocation
  fails), whether the pool allocation of the bus descriptor succeeds, what
  \<open>vhub_unplug_vpdo\<close> does to the node, and the handlers defined elsewhere.
\<close>

record env =
  is_fdo :: "vdev_type_t \<Rightarrow> bool"
  GetDeviceProperty :: "vdev_t \<Rightarrow> DEVICE_REGISTRY_PROPERTY \<Rightarrow> string option"
  get_product :: "vdev_t \<Rightarrow> string option"
  libdrv_strdup :: "string \<Rightarrow> string option"
  ExAllocatePool2_ok :: bool
  vhub_unplug_vpdo :: "vdev_t \<Rightarrow> vdev_t"
  absent :: "absent_handler \<Rightarrow> vdev_t \<Rightarrow> IRP \<Rightarrow> result"

section \<open>driver/vhci/pnp.cpp: the handlers\<close>

definition vdev_desc :: "string list" where
  "vdev_desc =
     [''usbip-win ROOT'',
      ''usbip-win CPDO'',
      ''usbip-win VHCI'',
      ''usbip-win HPDO'',
      ''usbip-win VHUB'',
      ''usbip-win VPDO'']"

text \<open>
  Modelled from the spec: the default status argument of \<open>CompleteRequest\<close> is declared in
  irp.h, which is not among the sources. Section 4.2 says that a request that is not
  forwarded is resolved "locally with success".
\<close>

definition CompleteRequest_default :: NTSTATUS where
  "CompleteRequest_default = STATUS_SUCCESS"

definition irp_pass_down_or_complete :: "env \<Rightarrow> vdev_t \<Rightarrow> IRP \<Rightarrow> call" where
  "irp_pass_down_or_complete e vdev irp =
     (if is_fdo e (type vdev) then Call_irp_pass_down (devobj_lower vdev)
      else Call_CompleteRequest CompleteRequest_default)"

definition set_state :: "vdev_t \<Rightarrow> pnp_state \<Rightarrow> vdev_t" where
  "set_state vdev state = vdev\<lparr>PreviousPnPState := PnPState vdev, PnPState := state\<rparr>"

text \<open>
  Modelled from the spec: \<open>set_previous_pnp_state\<close> is called by the two cancel handlers
  and defined in another file. Section 4.3 gives its effect as
  "restore \<open>state = previous_state\<close>".
\<close>

definition set_previous_pnp_state :: "vdev_t \<Rightarrow> vdev_t" where
  "set_previous_pnp_state vdev = vdev\<lparr>PnPState := PreviousPnPState vdev\<rparr>"

definition pnp_query_stop_device :: "env \<Rightarrow> vdev_t \<Rightarrow> IRP \<Rightarrow> result" where
  "pnp_query_stop_device e vdev irp =
     (let vdev' = set_state vdev StopPending
      in (vdev', irp, [irp_pass_down_or_complete e vdev' irp]))"

definition pnp_cancel_stop_device :: "env \<Rightarrow> vdev_t \<Rightarrow> IRP \<Rightarrow> result" where
  "pnp_cancel_stop_device e vdev irp =
     (let vdev' = (if PnPState vdev = StopPending then set_previous_pnp_state vdev else vdev)
      in (vdev', irp, [irp_pass_down_or_complete e vdev' irp]))"

definition pnp_stop_device :: "env \<Rightarrow> vdev_t \<Rightarrow> IRP \<Rightarrow> result" where
  "pnp_stop_device e vdev irp =
     (let vdev' = set_state vdev Stopped
      in (vdev', irp, [irp_pass_down_or_complete e vdev' irp]))"

text \<open>
  \<open>KeWaitForSingleObject\<close> on an event with a zero timeout: it returns at once, with
  \<open>STATUS_SUCCESS\<close> when the event is signalled and \<open>STATUS_TIMEOUT\<close> when it is not.
  The event is a notification event: a satisfied wait leaves it signalled, so the poll
  changes nothing.
\<close>

definition KeWaitForSingleObject_timeout0 :: "bool \<Rightarrow> NTSTATUS" where
  "KeWaitForSingleObject_timeout0 signalled =
     (if signalled then STATUS_SUCCESS else STATUS_TIMEOUT)"

definition device_can_be_removed :: "vdev_t \<Rightarrow> bool" where
  "device_can_be_removed vdev =
     (KeWaitForSingleObject_timeout0 (intf_ref_event vdev) = 0)"


definition pnp_query_remove_device :: "env \<Rightarrow> vdev_t \<Rightarrow> IRP \<Rightarrow> result" where
  "pnp_query_remove_device e vdev irp =
     (if device_can_be_removed vdev then
        (let vdev' = set_state vdev RemovePending
         in (vdev', irp, [irp_pass_down_or_complete e vdev' irp]))
      else (vdev, irp, [Call_CompleteRequest STATUS_UNSUCCESSFUL]))"

definition pnp_cancel_remove_device :: "env \<Rightarrow> vdev_t \<Rightarrow> IRP \<Rightarrow> result" where
  "pnp_cancel_remove_device e vdev irp =
     (let vdev' = (if PnPState vdev = RemovePending then set_previous_pnp_state vdev else vdev)
      in (vdev', irp, [irp_pass_down_or_complete e vdev' irp]))"

definition pnp_surprise_removal :: "env \<Rightarrow> vdev_t \<Rightarrow> IRP \<Rightarrow> result" where
  "pnp_surprise_removal e vdev irp =
     (let vdev' = set_state vdev SurpriseRemovePending
      in (vdev', irp, [irp_pass_down_or_complete e vdev' irp]))"

definition pnp_query_bus_information :: "env \<Rightarrow> vdev_t \<Rightarrow> IRP \<Rightarrow> result" where
  "pnp_query_bus_information e vdev irp =
     (let bi = (if ExAllocatePool2_ok e
                then Info_bus \<lparr>BusTypeGuid = GUID_BUS_TYPE_USB, LegacyBusType = PNPBus,
                               BusNumber = 1\<rparr>
                else Info_bits 0);
          irp' = irp\<lparr>IoStatus := (IoStatus irp)\<lparr>Information := bi\<rparr>\<rparr>;
          st = (if ExAllocatePool2_ok e then STATUS_SUCCESS else STATUS_INSUFFICIENT_RESOURCES)
      in (vdev, irp', [Call_CompleteRequest st]))"

definition pnp_0x0E :: "vdev_t \<Rightarrow> IRP \<Rightarrow> result" where
  "pnp_0x0E vdev irp = (vdev, irp, [Call_CompleteRequestAsIs])"

definition pnp_read_config :: "vdev_t \<Rightarrow> IRP \<Rightarrow> result" where
  "pnp_read_config vdev irp = (vdev, irp, [Call_CompleteRequestAsIs])"

definition pnp_write_config :: "vdev_t \<Rightarrow> IRP \<Rightarrow> result" where
  "pnp_write_config vdev irp = (vdev, irp, [Call_CompleteRequestAsIs])"

definition pnp_eject :: "env \<Rightarrow> vdev_t \<Rightarrow> IRP \<Rightarrow> result" where
  "pnp_eject e vdev irp =
     (if type vdev = VDEV_VPDO then
        (vhub_unplug_vpdo e vdev, irp,
         [Call_vhub_unplug_vpdo, Call_CompleteRequest CompleteRequest_default])
      else (vdev, irp, [Call_CompleteRequestAsIs]))"

definition pnp_set_lock :: "vdev_t \<Rightarrow> IRP \<Rightarrow> result" where
  "pnp_set_lock vdev irp = (vdev, irp, [Call_CompleteRequestAsIs])"

text \<open>
  \<open>st |= PNP_DEVICE_REMOVED\<close> on the status block's \<open>Information\<close>, which for this
  request carries flag bits.
\<close>

fun or_PNP_DEVICE_REMOVED :: "information \<Rightarrow> information" where
  "or_PNP_DEVICE_REMOVED (Info_bits w) = Info_bits (w OR PNP_DEVICE_REMOVED)"
| "or_PNP_DEVICE_REMOVED i = i"

definition pnp_query_pnp_device_state :: "vdev_t \<Rightarrow> IRP \<Rightarrow> result" where
  "pnp_query_pnp_device_state vdev irp =
     (let irp' = (if PnPState vdev = Removed
                  then irp\<lparr>IoStatus := (IoStatus irp)
                             \<lparr>Information := or_PNP_DEVICE_REMOVED (Information (IoStatus irp))\<rparr>\<rparr>
                  else irp)
      in (vdev, irp', [Call_CompleteRequest CompleteRequest_default]))"

definition pnp_device_usage_notification :: "env \<Rightarrow> vdev_t \<Rightarrow> IRP \<Rightarrow> result" where
  "pnp_device_usage_notification e vdev irp = (vdev, irp, [irp_pass_down_or_complete e vdev irp])"

definition pnp_query_legacy_bus_information :: "vdev_t \<Rightarrow> IRP \<Rightarrow> result" where
  "pnp_query_legacy_bus_information vdev irp = (vdev, irp, [Call_CompleteRequestAsIs])"

definition pnp_device_enumerated :: "vdev_t \<Rightarrow> IRP \<Rightarrow> result" where
  "pnp_device_enumerated vdev irp = (vdev, irp, [Call_CompleteRequest CompleteRequest_default])"

definition copy_str :: "env \<Rightarrow> string \<Rightarrow> IO_STATUS_BLOCK \<Rightarrow> IO_STATUS_BLOCK" where
  "copy_str e s blk =
     (case libdrv_strdup e s of
        Some str \<Rightarrow> blk\<lparr>Information := Info_wstr str, Status := STATUS_SUCCESS\<rparr>
      | None \<Rightarrow> blk)"

text \<open>
  The part of \<open>pnp_query_device_text\<close> after the \<open>switch\<close>: \<open>prop\<close> and \<open>prop_str\<close>
  (\<open>None\<close> is the null pointer) are what the \<open>switch\<close> has set.
\<close>

definition query_device_text_fill ::
  "env \<Rightarrow> vdev_t \<Rightarrow> IRP \<Rightarrow> DEVICE_REGISTRY_PROPERTY \<Rightarrow> string option \<Rightarrow> result" where
  "query_device_text_fill e vdev irp prop prop_str =
     (let blk = IoStatus irp;
          blk1 = (case GetDeviceProperty e vdev prop of
                    Some str \<Rightarrow> blk\<lparr>Information := Info_wstr str, Status := STATUS_SUCCESS\<rparr>
                  | None \<Rightarrow>
                      if type vdev = VDEV_VPDO \<and> prop = DevicePropertyDeviceDescription then
                        (case get_product e vdev of
                           Some product \<Rightarrow> copy_str e product blk
                         | None \<Rightarrow> blk)
                      else blk);
          blk2 = (case prop_str of
                    Some s \<Rightarrow> if is_null (Information blk1) then copy_str e s blk1 else blk1
                  | None \<Rightarrow> blk1)
      in (vdev, irp\<lparr>IoStatus := blk2\<rparr>, [Call_CompleteRequestAsIs]))"

definition pnp_query_device_text :: "env \<Rightarrow> vdev_t \<Rightarrow> IRP \<Rightarrow> result" where
  "pnp_query_device_text e vdev irp =
     (if DeviceTextType irp = DeviceTextDescription then
        query_device_text_fill e vdev irp DevicePropertyDeviceDescription
          (Some (vdev_desc ! vdev_type_index (type vdev)))
      else if DeviceTextType irp = DeviceTextLocationInformation then
        query_device_text_fill e vdev irp DevicePropertyLocationInformation None
      else (vdev, irp, [Call_CompleteRequest STATUS_INVALID_PARAMETER]))"

definition pnpmn_functions :: "env \<Rightarrow> (vdev_t \<Rightarrow> IRP \<Rightarrow> result) list" where
  "pnpmn_functions e =
     [absent e pnp_start_device,
      pnp_query_remove_device e,
      absent e pnp_remove_device,
      pnp_cancel_remove_device e,
      pnp_stop_device e,
      pnp_query_stop_device e,
      pnp_cancel_stop_device e,

      absent e pnp_query_device_relations,
      absent e pnp_query_interface,
      absent e pnp_query_capabilities,
      absent e pnp_query_resources,
      absent e pnp_query_resource_requirements,
      pnp_query_device_text e,
      absent e pnp_filter_resource_requirements,

      pnp_0x0E,

      pnp_read_config,
      pnp_write_config,
      pnp_eject e,
      pnp_set_lock,
      absent e pnp_query_id,
      pnp_query_pnp_device_state,
      pnp_query_bus_information e,
      pnp_device_usage_notification e,
      pnp_surprise_removal e,

      pnp_query_legacy_bus_information,
      pnp_device_enumerated]"

definition vhci_pnp :: "env \<Rightarrow> vdev_t \<Rightarrow> IRP \<Rightarrow> result" where
  "vhci_pnp e vdev irp =
     (if PnPState vdev = Removed then
        (vdev, irp, [Call_CompleteRequest STATUS_NO_SUCH_DEVICE])
      else if unat (MinorFunction irp) < length (pnpmn_functions e) then
        (pnpmn_functions e ! unat (MinorFunction irp)) vdev irp
      else (vdev, irp, [Call_CompleteRequestAsIs]))"

section \<open>The installation tool: class filter lists\<close>

type_synonym wstring = "WCHAR list"
type_synonym DWORD = "32 word"

definition ERROR_SUCCESS :: DWORD where
  "ERROR_SUCCESS = 0"

definition ERROR_FILE_NOT_FOUND :: DWORD where
  "ERROR_FILE_NOT_FOUND = 2"

definition ERROR_ACCESS_DENIED :: DWORD where
  "ERROR_ACCESS_DENIED = 5"

definition ERROR_MORE_DATA :: DWORD where
  "ERROR_MORE_DATA = 234"

record classfilter_args =
  level :: string
  class_name :: wstring
  driver_name :: wstring

definition opt_upper :: string where
  "opt_upper = ''upper''"

text \<open>
  \<open>split_multi_sz\<close> walks a pointer through a buffer of zero-terminated strings. The
  pointer is modelled by the part of the buffer from the pointer to the buffer's end.
  \<open>None\<close> is returned where the source would read behind the end of the buffer: when it
  tests \<open>*str\<close> with nothing left, or when a string has no terminator. Otherwise the
  result is the vector of strings and the new value of the flag \<open>excluded\<close>.
\<close>

function split_multi_sz_loop ::
  "WCHAR list \<Rightarrow> wstring \<Rightarrow> bool \<Rightarrow> wstring list \<Rightarrow> (wstring list \<times> bool) option" where
  "split_multi_sz_loop str exclude excluded v =
     (if str = [] then None
      else if hd str = 0 then Some (v, excluded)
      else
        (let s = takeWhile (\<lambda>c. c \<noteq> 0) str
         in if length s = length str then None
            else if s = exclude then
              split_multi_sz_loop (drop (length s + 1) str) exclude True v
            else
              split_multi_sz_loop (drop (length s + 1) str) exclude excluded (v @ [s])))"
  by pat_completeness auto
termination
  by (relation "measure (\<lambda>(str, exclude, excluded, v). length str)") auto

text \<open>The pointer argument may be null (\<open>None\<close>): then the loop body never runs.\<close>

definition split_multi_sz ::
  "WCHAR list option \<Rightarrow> wstring \<Rightarrow> bool \<Rightarrow> (wstring list \<times> bool) option" where
  "split_multi_sz str exclude excluded =
     (case str of
        None \<Rightarrow> Some ([], excluded)
      | Some buf \<Rightarrow> split_multi_sz_loop buf exclude excluded [])"

text \<open>
  A buffer that is a single terminator, or that ends in two terminators: the walk of
  \<open>split_multi_sz\<close> stays inside such a buffer.
\<close>

definition padded :: "WCHAR list \<Rightarrow> bool" where
  "padded buf = (buf = [0] \<or> (\<exists>xs. buf = xs @ [0, 0]))"

definition make_hwid :: "wstring \<Rightarrow> wstring" where
  "make_hwid hwid = (hwid @ [0]) @ [0]"

text \<open>
  Modelled from the spec: \<open>make_multi_sz\<close> is defined in the library, which is not among
  the sources. Section 6 calls the persisted value "one ordered, string-list value";
  its layout is the one \<open>make_hwid\<close> writes and \<open>split_multi_sz\<close> reads: every
  string followed by a terminator, and one more terminator at the end of the list.
\<close>

fun make_multi_sz :: "wstring list \<Rightarrow> wstring" where
  "make_multi_sz [] = [0]"
| "make_multi_sz (s # v) = s @ [0] @ make_multi_sz v"

text \<open>
  The registry key of the device class. It holds the two filter lists; a value that does
  not exist is \<open>None\<close>. \<open>RegSetValueEx_log\<close> records every call of \<open>RegSetValueEx\<close>
  with the data passed, in order.
\<close>

datatype val_name = REGSTR_VAL_UPPERFILTERS | REGSTR_VAL_LOWERFILTERS

record class_key =
  reg_values :: "val_name \<Rightarrow> WCHAR list option"
  RegSetValueEx_log :: "(val_name \<times> WCHAR list) list"

text \<open>
  What the operating system answers: whether the class name resolves and to how many
  identifiers, whether the class key opens, whether reading the value is refused, and the
  error code of \<open>RegSetValueEx\<close> (\<open>ERROR_SUCCESS\<close> when it stores the data).
\<close>

record os =
  SetupDiClassGuidsFromName_ok :: bool
  guids_cnt :: nat
  SetupDiOpenClassRegKeyEx_ok :: bool
  RegGetValue_denied :: bool
  RegSetValueEx_err :: DWORD

text \<open>
  \<open>RegGetValue\<close> with a buffer \<open>val\<close> and its capacity \<open>val_sz\<close> in bytes: the result is
  the error code, the buffer and the size reported back. A value that does not fit is not
  copied and its size in bytes is reported; a value that fits is copied to the start of
  the buffer.
\<close>

definition RegGetValue ::
  "os \<Rightarrow> class_key \<Rightarrow> val_name \<Rightarrow> WCHAR list \<Rightarrow> nat \<Rightarrow> DWORD \<times> WCHAR list \<times> nat" where
  "RegGetValue sys key name val val_sz =
     (if RegGetValue_denied sys then (ERROR_ACCESS_DENIED, val, val_sz)
      else case reg_values key name of
        None \<Rightarrow> (ERROR_FILE_NOT_FOUND, val, val_sz)
      | Some d \<Rightarrow>
          if val_sz < 2 * length d then (ERROR_MORE_DATA, val, 2 * length d)
          else (ERROR_SUCCESS, d @ drop (length d) val, 2 * length d))"

text \<open>\<open>std::vector::resize\<close>: cut to \<open>n\<close> elements, or filled up to \<open>n\<close> with zeros.\<close>

definition resize :: "WCHAR list \<Rightarrow> nat \<Rightarrow> WCHAR list" where
  "resize val n = take n val @ replicate (n - length val) 0"

text \<open>
  \<open>read_multi_z\<close>: \<open>None\<close> is the return value \<open>false\<close>, \<open>Some val\<close> is \<open>true\<close> with the
  buffer it leaves in \<open>val\<close>.
\<close>

function read_multi_z_loop ::
  "os \<Rightarrow> class_key \<Rightarrow> val_name \<Rightarrow> WCHAR list \<Rightarrow> nat \<Rightarrow> WCHAR list option" where
  "read_multi_z_loop sys key name val val_sz =
     (case RegGetValue sys key name val val_sz of
        (err, val', val_sz') \<Rightarrow>
          if err = ERROR_FILE_NOT_FOUND then Some []
          else if err = ERROR_SUCCESS then Some val'
          else if err = ERROR_MORE_DATA then
            read_multi_z_loop sys key name (resize val' val_sz') val_sz'
          else None)"
  by pat_completeness auto
termination
  by (relation "measure (\<lambda>(sys, key, name, val, val_sz).
        case reg_values key name of None \<Rightarrow> 0 | Some d \<Rightarrow> 2 * length d - val_sz)")
     (auto simp: RegGetValue_def ERROR_MORE_DATA_def ERROR_ACCESS_DENIED_def
                 ERROR_FILE_NOT_FOUND_def ERROR_SUCCESS_def
           split: if_splits option.splits)

definition read_multi_z :: "os \<Rightarrow> class_key \<Rightarrow> val_name \<Rightarrow> WCHAR list \<Rightarrow> WCHAR list option" where
  "read_multi_z sys key name val = read_multi_z_loop sys key name val (length val)"

definition get_class_guid :: "os \<Rightarrow> bool" where
  "get_class_guid sys =
     (if \<not> SetupDiClassGuidsFromName_ok sys then False else guids_cnt sys = 1)"

definition RegSetValueEx :: "os \<Rightarrow> class_key \<Rightarrow> val_name \<Rightarrow> WCHAR list \<Rightarrow> DWORD \<times> class_key" where
  "RegSetValueEx sys key name str =
     (let key' = key\<lparr>RegSetValueEx_log := RegSetValueEx_log key @ [(name, str)]\<rparr>
      in if RegSetValueEx_err sys = ERROR_SUCCESS
         then (ERROR_SUCCESS, key'\<lparr>reg_values := (reg_values key')(name := Some str)\<rparr>)
         else (RegSetValueEx_err sys, key'))"

text \<open>
  \<open>classfilter\<close>: the result is the boolean the function returns and the registry key
  afterwards; \<open>None\<close> when \<open>split_multi_sz\<close> reads behind the buffer.
\<close>

definition classfilter ::
  "os \<Rightarrow> classfilter_args \<Rightarrow> bool \<Rightarrow> class_key \<Rightarrow> (bool \<times> class_key) option" where
  "classfilter sys r add key =
     (if \<not> get_class_guid sys then Some (False, key)
      else if \<not> SetupDiOpenClassRegKeyEx_ok sys then Some (False, key)
      else
        (let name = (if level r = opt_upper then REGSTR_VAL_UPPERFILTERS
                     else REGSTR_VAL_LOWERFILTERS)
         in case read_multi_z sys key name (replicate 4096 0) of
              None \<Rightarrow> Some (False, key)
            | Some val \<Rightarrow>
                (case split_multi_sz (if val = [] then None else Some val) (driver_name r) add of
                   None \<Rightarrow> None
                 | Some (v, modified) \<Rightarrow>
                     (let filters = (if add then v @ [driver_name r] else v)
                      in if \<not> modified then Some (True, key)
                         else case RegSetValueEx sys key name (make_multi_sz filters) of
                                (err, key') \<Rightarrow>
                                  if err \<noteq> 0 then Some (False, key') else Some (True, key')))))"

text \<open>
  The list of strings a filter value holds, read the way the tool reads it: the buffer of
  \<open>read_multi_z\<close> split by \<open>split_multi_sz\<close>, with nothing excluded.
\<close>

definition persisted_list :: "os \<Rightarrow> class_key \<Rightarrow> val_name \<Rightarrow> wstring list option" where
  "persisted_list sys key name =
     (case read_multi_z sys key name (replicate 4096 0) of
        None \<Rightarrow> None
      | Some val \<Rightarrow>
          map_option fst (split_multi_sz (if val = [] then None else Some val) [] False))"

section \<open>The transfer-copy helper for bulk and interrupt transfers\<close>

record URB_BULK_OR_INTERRUPT_TRANSFER =
  TransferFlags :: ULONG
  TransferBufferLength :: ULONG
  TransferBuffer :: "nat option"
  TransferBufferMDL :: "nat option"

text \<open>
  Of the header: \<open>u.ret_submit.actual_length\<close>, and the bytes that follow the header
  (\<open>hdr + 1\<close>).
\<close>

record usbip_header =
  actual_length :: "32 word"
  payload :: "8 word list"

text \<open>
  The macro \<open>IS_TRANSFER_FLAGS_IN\<close> and the function \<open>copy_to_transfer_buffer\<close> are
  declared in headers and are parameters here. The copy works on the memory behind the
  buffer pointers, of any type \<open>'m\<close>, and returns a status with the memory afterwards.
\<close>

type_synonym 'm copy_fn =
  "nat option \<Rightarrow> nat option \<Rightarrow> ULONG \<Rightarrow> 8 word list \<Rightarrow> 32 word \<Rightarrow> 'm \<Rightarrow> NTSTATUS \<times> 'm"

definition fetch_urbr_bulk_or_interrupt ::
  "(ULONG \<Rightarrow> bool) \<Rightarrow> 'm copy_fn \<Rightarrow> URB_BULK_OR_INTERRUPT_TRANSFER \<Rightarrow> usbip_header \<Rightarrow> 'm
     \<Rightarrow> NTSTATUS \<times> URB_BULK_OR_INTERRUPT_TRANSFER \<times> 'm" where
  "fetch_urbr_bulk_or_interrupt IS_TRANSFER_FLAGS_IN copy_to_transfer_buffer urb_bi hdr mem =
     (if IS_TRANSFER_FLAGS_IN (TransferFlags urb_bi) then
        (case copy_to_transfer_buffer (TransferBuffer urb_bi) (TransferBufferMDL urb_bi)
                (TransferBufferLength urb_bi) (payload hdr) (actual_length hdr) mem of
           (status, mem') \<Rightarrow>
             (status,
              if status = STATUS_SUCCESS
              then urb_bi\<lparr>TransferBufferLength := actual_length hdr\<rparr>
              else urb_bi,
              mem'))
      else (STATUS_SUCCESS, urb_bi, mem))"

section \<open>Sample configurations\<close>

text \<open>
  Modelled from the spec: \<open>is_fdo\<close> is declared in a header that is not among the sources.
  Section 3 says that the lower layer is "present only for kinds that sit functionally
  above another driver layer (Controller, VirtualHub, VirtualPort)".
\<close>

definition lower_layer_kinds :: "vdev_type_t \<Rightarrow> bool" where
  "lower_layer_kinds t = (t = VDEV_VHCI \<or> t = VDEV_VHUB \<or> t = VDEV_VPDO)"

text \<open>
  An environment in which the registry knows no device text, no port has a product
  string, every allocation succeeds, unplugging leaves the node's fields alone, and each
  handler defined elsewhere completes the request as it is.
\<close>

definition sample_env :: env where
  "sample_env =
     \<lparr>is_fdo = lower_layer_kinds,
      GetDeviceProperty = (\<lambda>vdev prop. None),
      get_product = (\<lambda>vdev. None),
      libdrv_strdup = Some,
      ExAllocatePool2_ok = True,
      vhub_unplug_vpdo = (\<lambda>vdev. vdev),
      absent = (\<lambda>h vdev irp. (vdev, irp, [Call_CompleteRequestAsIs]))\<rparr>"

text \<open>The same with a product string on every port.\<close>

definition product_env :: env where
  "product_env = sample_env\<lparr>get_product := (\<lambda>vdev. Some ''Flash Disk'')\<rparr>"

text \<open>The same, and the registry holds a description of the device.\<close>

definition registry_env :: env where
  "registry_env =
     product_env\<lparr>GetDeviceProperty := (\<lambda>vdev prop. Some ''USB Mass Storage Device'')\<rparr>"

definition sample_vdev :: "vdev_type_t \<Rightarrow> pnp_state \<Rightarrow> vdev_t" where
  "sample_vdev t st =
     \<lparr>type = t, PnPState = st, PreviousPnPState = NotStarted,
      devobj_lower = (if lower_layer_kinds t then Some 1 else None),
      intf_ref_cnt = 0, intf_ref_event = True\<rparr>"

text \<open>A node whose interface has one user: the event of the removal gate is not signalled.\<close>

definition busy_vdev :: "vdev_type_t \<Rightarrow> pnp_state \<Rightarrow> vdev_t" where
  "busy_vdev t st = (sample_vdev t st)\<lparr>intf_ref_cnt := 1, intf_ref_event := False\<rparr>"

definition sample_irp :: "UCHAR \<Rightarrow> IRP" where
  "sample_irp mn =
     \<lparr>IoStatus = \<lparr>Status = STATUS_NOT_SUPPORTED, Information = Info_bits 0\<rparr>,
      MinorFunction = mn, DeviceTextType = DeviceTextDescription\<rparr>"

text \<open>
  An operating system that resolves the class name to one identifier, opens the key, and
  reads and stores values without error.
\<close>

definition ok_os :: os where
  "ok_os =
     \<lparr>SetupDiClassGuidsFromName_ok = True, guids_cnt = 1, SetupDiOpenClassRegKeyEx_ok = True,
      RegGetValue_denied = False, RegSetValueEx_err = ERROR_SUCCESS\<rparr>"

text \<open>The driver name \<open>flt\<close>, and the arguments that name it for the upper filters of class \<open>USB\<close>.\<close>

definition flt :: wstring where
  "flt = [0x66, 0x6C, 0x74]"

definition flt_args :: classfilter_args where
  "flt_args = \<lparr>level = ''upper'', class_name = [0x55, 0x53, 0x42], driver_name = flt\<rparr>"

text \<open>
  A class key without filter values; the key after one call has stored \<open>flt\<close> as the
  only upper filter; and a key whose upper filters are \<open>flt\<close> and \<open>a\<close>.
\<close>

definition empty_key :: class_key where
  "empty_key = \<lparr>reg_values = Map.empty, RegSetValueEx_log = []\<rparr>"

definition flt_key :: class_key where
  "flt_key =
     \<lparr>reg_values = [REGSTR_VAL_UPPERFILTERS \<mapsto> make_multi_sz [flt]],
      RegSetValueEx_log = [(REGSTR_VAL_UPPERFILTERS, make_multi_sz [flt])]\<rparr>"

definition two_filter_key :: class_key where
  "two_filter_key =
     \<lparr>reg_values = [REGSTR_VAL_UPPERFILTERS \<mapsto> make_multi_sz [flt, [0x61]]],
      RegSetValueEx_log = []\<rparr>"

text \<open>
  A direction test on the lowest bit of the transfer flags, a copy that refuses a source
  longer than the buffer and a transfer without buffer, and a transfer and a header with
  two bytes of payload.
\<close>

definition USBD_TRANSFER_DIRECTION_IN :: ULONG where
  "USBD_TRANSFER_DIRECTION_IN = 1"

definition direction_in :: "ULONG \<Rightarrow> bool" where
  "direction_in flags = (flags AND USBD_TRANSFER_DIRECTION_IN \<noteq> 0)"

definition bounded_copy :: "(8 word list) copy_fn" where
  "bounded_copy buf mdl buflen src srclen mem =
     (if buf = None \<and> mdl = None then (STATUS_INVALID_PARAMETER, mem)
      else if unat buflen < unat srclen then (STATUS_INVALID_PARAMETER, mem)
      else (STATUS_SUCCESS, take (unat srclen) src @ drop (unat srclen) mem))"

definition sample_urb :: "ULONG \<Rightarrow> ULONG \<Rightarrow> URB_BULK_OR_INTERRUPT_TRANSFER" where
  "sample_urb flags len =
     \<lparr>TransferFlags = flags, TransferBufferLength = len,
      TransferBuffer = Some 4096, TransferBufferMDL = None\<rparr>"

definition sample_hdr :: usbip_header where
  "sample_hdr = \<lparr>actual_length = 2, payload = [0xAB, 0xCD]\<rparr>"

section \<open>The request router\<close>

lemma length_pnpmn_functions: "length (pnpmn_functions e) = 26"
  by (simp add: pnpmn_functions_def)

text \<open>
  C1. Once the state of a node is \<open>Removed\<close>, the router resolves every request with
  \<open>STATUS_NO_SUCH_DEVICE\<close>: the only call it makes is the completion with that status, so
  nothing is forwarded to the lower layer; the result is the same whatever the handlers
  are, so none of them has run; and the node (state, previous state, reference count and
  every other field) and the request are returned as they came.
\<close>

theorem vhci_pnp_removed:
  "PnPState vdev = Removed \<Longrightarrow>
   vhci_pnp e vdev irp = (vdev, irp, [Call_CompleteRequest STATUS_NO_SUCH_DEVICE])"
  by (simp add: vhci_pnp_def)

theorem vhci_pnp_removed_witness:
  "PnPState (sample_vdev VDEV_VHUB Removed) = Removed \<and>
   vhci_pnp sample_env (sample_vdev VDEV_VHUB Removed) (sample_irp 5) =
     (sample_vdev VDEV_VHUB Removed, sample_irp 5, [Call_CompleteRequest STATUS_NO_SUCH_DEVICE])"
  using vhci_pnp_removed [of "sample_vdev VDEV_VHUB Removed" sample_env "sample_irp 5"]
  by (simp add: sample_vdev_def)

text \<open>
  C2, as stated, fails. A controller node has a lower layer, so the default rule would
  forward the request; for the minor function code 26, the first one behind the table,
  the router completes the request as it is and forwards nothing.
\<close>

theorem vhci_pnp_unknown_minor_counterexample:
  "PnPState (sample_vdev VDEV_VHCI Started) \<noteq> Removed \<and>
   length (pnpmn_functions sample_env) \<le> unat (MinorFunction (sample_irp 26)) \<and>
   devobj_lower (sample_vdev VDEV_VHCI Started) = Some 1 \<and>
   is_fdo sample_env (type (sample_vdev VDEV_VHCI Started)) \<and>
   irp_pass_down_or_complete sample_env (sample_vdev VDEV_VHCI Started) (sample_irp 26) =
     Call_irp_pass_down (Some 1) \<and>
   snd (snd (vhci_pnp sample_env (sample_vdev VDEV_VHCI Started) (sample_irp 26))) =
     [Call_CompleteRequestAsIs] \<and>
   snd (snd (vhci_pnp sample_env (sample_vdev VDEV_VHCI Started) (sample_irp 26))) \<noteq>
     [irp_pass_down_or_complete sample_env (sample_vdev VDEV_VHCI Started) (sample_irp 26)]"
  by (simp add: vhci_pnp_def length_pnpmn_functions sample_vdev_def sample_irp_def sample_env_def
      irp_pass_down_or_complete_def lower_layer_kinds_def)

text \<open>
  C2, amended. The dispatch table has 26 entries. For a node that is not \<open>Removed\<close> and
  a minor function code of 26 or more, the router completes the request locally with the
  status it carries, for every kind of node, with or without a lower layer; it forwards
  nothing and changes no field of the node or of the request.
\<close>

theorem vhci_pnp_unknown_minor:
  "length (pnpmn_functions e) = 26 \<and>
   (PnPState vdev \<noteq> Removed \<and> 26 \<le> unat (MinorFunction irp) \<longrightarrow>
      vhci_pnp e vdev irp = (vdev, irp, [Call_CompleteRequestAsIs]))"
  by (simp add: vhci_pnp_def length_pnpmn_functions)

theorem vhci_pnp_unknown_minor_witness:
  "PnPState (sample_vdev VDEV_VHCI Started) \<noteq> Removed \<and>
   26 \<le> unat (MinorFunction (sample_irp 200)) \<and>
   vhci_pnp sample_env (sample_vdev VDEV_VHCI Started) (sample_irp 200) =
     (sample_vdev VDEV_VHCI Started, sample_irp 200, [Call_CompleteRequestAsIs])"
  using vhci_pnp_unknown_minor [of sample_env "sample_vdev VDEV_VHCI Started" "sample_irp 200"]
  by (simp add: sample_vdev_def sample_irp_def)

section \<open>The lifecycle handlers\<close>

lemma irp_pass_down_or_complete_set_state [simp]:
  "irp_pass_down_or_complete e (set_state vdev st) irp = irp_pass_down_or_complete e vdev irp"
  by (simp add: irp_pass_down_or_complete_def set_state_def)

lemma irp_pass_down_or_complete_set_previous [simp]:
  "irp_pass_down_or_complete e (set_previous_pnp_state vdev) irp =
   irp_pass_down_or_complete e vdev irp"
  by (simp add: irp_pass_down_or_complete_def set_previous_pnp_state_def)

lemma device_can_be_removed_iff: "device_can_be_removed vdev = intf_ref_event vdev"
  by (simp add: device_can_be_removed_def KeWaitForSingleObject_timeout0_def
      STATUS_SUCCESS_def STATUS_TIMEOUT_def)

lemma dispatch_in_range:
  "PnPState vdev \<noteq> Removed \<Longrightarrow> unat (MinorFunction irp) = n \<Longrightarrow> n < 26 \<Longrightarrow>
   vhci_pnp e vdev irp = (pnpmn_functions e ! n) vdev irp"
  by (simp add: vhci_pnp_def length_pnpmn_functions)

lemma dispatch_beyond:
  "PnPState vdev \<noteq> Removed \<Longrightarrow> 26 \<le> unat (MinorFunction irp) \<Longrightarrow>
   vhci_pnp e vdev irp = (vdev, irp, [Call_CompleteRequestAsIs])"
  by (simp add: vhci_pnp_def length_pnpmn_functions)

lemma pnpmn_functions_nth:
  "pnpmn_functions e ! 1 = pnp_query_remove_device e"
  "pnpmn_functions e ! Suc 0 = pnp_query_remove_device e"
  "pnpmn_functions e ! 3 = pnp_cancel_remove_device e"
  "pnpmn_functions e ! 4 = pnp_stop_device e"
  "pnpmn_functions e ! 5 = pnp_query_stop_device e"
  "pnpmn_functions e ! 6 = pnp_cancel_stop_device e"
  "pnpmn_functions e ! 12 = pnp_query_device_text e"
  "pnpmn_functions e ! 14 = pnp_0x0E"
  "pnpmn_functions e ! 15 = pnp_read_config"
  "pnpmn_functions e ! 16 = pnp_write_config"
  "pnpmn_functions e ! 17 = pnp_eject e"
  "pnpmn_functions e ! 18 = pnp_set_lock"
  "pnpmn_functions e ! 20 = pnp_query_pnp_device_state"
  "pnpmn_functions e ! 21 = pnp_query_bus_information e"
  "pnpmn_functions e ! 22 = pnp_device_usage_notification e"
  "pnpmn_functions e ! 23 = pnp_surprise_removal e"
  "pnpmn_functions e ! 24 = pnp_query_legacy_bus_information"
  "pnpmn_functions e ! 25 = pnp_device_enumerated"
  by (simp_all add: pnpmn_functions_def)

lemma handler_vdev:
  "fst (pnp_query_stop_device e vdev irp) = set_state vdev StopPending"
  "fst (pnp_stop_device e vdev irp) = set_state vdev Stopped"
  "fst (pnp_surprise_removal e vdev irp) = set_state vdev SurpriseRemovePending"
  "fst (pnp_query_remove_device e vdev irp) =
     (if intf_ref_event vdev then set_state vdev RemovePending else vdev)"
  "fst (pnp_cancel_stop_device e vdev irp) =
     (if PnPState vdev = StopPending then set_previous_pnp_state vdev else vdev)"
  "fst (pnp_cancel_remove_device e vdev irp) =
     (if PnPState vdev = RemovePending then set_previous_pnp_state vdev else vdev)"
  "fst (pnp_query_device_text e vdev irp) = vdev"
  "fst (pnp_0x0E vdev irp) = vdev"
  "fst (pnp_read_config vdev irp) = vdev"
  "fst (pnp_write_config vdev irp) = vdev"
  "type vdev \<noteq> VDEV_VPDO \<Longrightarrow> fst (pnp_eject e vdev irp) = vdev"
  "fst (pnp_set_lock vdev irp) = vdev"
  "fst (pnp_query_pnp_device_state vdev irp) = vdev"
  "fst (pnp_query_bus_information e vdev irp) = vdev"
  "fst (pnp_device_usage_notification e vdev irp) = vdev"
  "fst (pnp_query_legacy_bus_information vdev irp) = vdev"
  "fst (pnp_device_enumerated vdev irp) = vdev"
  by (simp_all add: pnp_query_stop_device_def pnp_stop_device_def pnp_surprise_removal_def
      pnp_query_remove_device_def pnp_cancel_stop_device_def pnp_cancel_remove_device_def
      pnp_query_device_text_def query_device_text_fill_def pnp_0x0E_def pnp_read_config_def
      pnp_write_config_def pnp_eject_def pnp_set_lock_def pnp_query_pnp_device_state_def
      pnp_query_bus_information_def pnp_device_usage_notification_def
      pnp_query_legacy_bus_information_def pnp_device_enumerated_def
      device_can_be_removed_iff Let_def)

lemma in_source_codes:
  assumes "n \<notin> {0, 2, 7, 8, 9, 10, 11, 13, 19::nat}"
  shows "n \<in> {1, 3, 4, 5, 6, 12, 14, 15, 16, 17, 18, 20, 21, 22, 23, 24, 25} \<or> 26 \<le> n"
  using assms by (simp; arith)

text \<open>
  C3, as stated, fails. \<open>pnp_stop_device\<close> goes through \<open>set_state\<close>, which saves the
  current state before it writes the new one: Stop on a started node whose previous state
  is \<open>NotStarted\<close> leaves the previous state \<open>Started\<close>.
\<close>

theorem stop_writes_previous_state_counterexample:
  "PnPState (sample_vdev VDEV_VPDO Started) = Started \<and>
   PreviousPnPState (sample_vdev VDEV_VPDO Started) = NotStarted \<and>
   unat (MinorFunction (sample_irp 4)) = 4 \<and>
   pnpmn_functions sample_env ! 4 = pnp_stop_device sample_env \<and>
   PnPState (fst (vhci_pnp sample_env (sample_vdev VDEV_VPDO Started) (sample_irp 4))) = Stopped \<and>
   PreviousPnPState (fst (vhci_pnp sample_env (sample_vdev VDEV_VPDO Started) (sample_irp 4))) =
     Started \<and>
   PreviousPnPState (fst (vhci_pnp sample_env (sample_vdev VDEV_VPDO Started) (sample_irp 4))) \<noteq>
     PreviousPnPState (sample_vdev VDEV_VPDO Started)"
  by (simp add: vhci_pnp_def length_pnpmn_functions pnpmn_functions_nth handler_vdev
      set_state_def sample_vdev_def sample_irp_def)

text \<open>
  C3, amended. The previous state is written by every call of \<open>set_state\<close>, and receives
  the state held before the request: on entering \<open>StopPending\<close> (code 5),
  \<open>SurpriseRemovePending\<close> (code 23), \<open>RemovePending\<close> (code 1, when the event of the
  removal gate is signalled) and also on Stop (code 4), which enters \<open>Stopped\<close>. Every
  other request that the router resolves itself or hands to a handler defined in pnp.cpp
  leaves the previous state as it was. The statement is about a node that is not
  \<open>Removed\<close>; it leaves out the requests that reach code of other files: the nine
  handlers defined there, Eject on a port node, which hands the node to the unplug
  function, and a cancel request in its pending state, which calls
  \<open>set_previous_pnp_state\<close>.
\<close>

theorem previous_state_written_by_set_state:
  assumes "PnPState vdev \<noteq> Removed"
    and "unat (MinorFunction irp) \<notin> {0, 2, 7, 8, 9, 10, 11, 13, 19}"
    and "unat (MinorFunction irp) = 17 \<Longrightarrow> type vdev \<noteq> VDEV_VPDO"
    and "unat (MinorFunction irp) = 6 \<Longrightarrow> PnPState vdev \<noteq> StopPending"
    and "unat (MinorFunction irp) = 3 \<Longrightarrow> PnPState vdev \<noteq> RemovePending"
  shows "PreviousPnPState (fst (vhci_pnp e vdev irp)) =
           (if unat (MinorFunction irp) \<in> {4, 5, 23}
               \<or> unat (MinorFunction irp) = 1 \<and> intf_ref_event vdev
            then PnPState vdev else PreviousPnPState vdev)"
proof -
  from in_source_codes [OF assms(2)]
  consider (tab) "unat (MinorFunction irp) \<in>
                   {1, 3, 4, 5, 6, 12, 14, 15, 16, 17, 18, 20, 21, 22, 23, 24, 25}"
    | (beyond) "26 \<le> unat (MinorFunction irp)"
    by blast
  then show ?thesis
  proof cases
    case beyond
    then show ?thesis
      using assms(1) by (simp add: dispatch_beyond)
  next
    case tab
    then have lt: "unat (MinorFunction irp) < 26"
      by auto
    have eq: "vhci_pnp e vdev irp = (pnpmn_functions e ! unat (MinorFunction irp)) vdev irp"
      using assms(1) lt by (simp add: dispatch_in_range)
    from tab assms(3,4,5) show ?thesis
      unfolding eq
      by (auto simp: pnpmn_functions_nth handler_vdev set_state_def)
  qed
qed

theorem previous_state_written_by_set_state_witness:
  "PreviousPnPState (fst (vhci_pnp sample_env (sample_vdev VDEV_VHUB Started) (sample_irp 4))) =
     Started \<and>
   PreviousPnPState (fst (vhci_pnp sample_env (sample_vdev VDEV_VHUB Started) (sample_irp 5))) =
     Started \<and>
   PreviousPnPState (fst (vhci_pnp sample_env (sample_vdev VDEV_VHUB Started) (sample_irp 17))) =
     NotStarted \<and>
   PreviousPnPState (fst (vhci_pnp sample_env (busy_vdev VDEV_VHUB Started) (sample_irp 1))) =
     NotStarted"
  using previous_state_written_by_set_state
          [of "sample_vdev VDEV_VHUB Started" "sample_irp 4" sample_env]
        previous_state_written_by_set_state
          [of "sample_vdev VDEV_VHUB Started" "sample_irp 5" sample_env]
        previous_state_written_by_set_state
          [of "sample_vdev VDEV_VHUB Started" "sample_irp 17" sample_env]
        previous_state_written_by_set_state
          [of "busy_vdev VDEV_VHUB Started" "sample_irp 1" sample_env]
  by (simp add: sample_vdev_def busy_vdev_def sample_irp_def)



text \<open>
  C5. CancelStop on a node whose state is not \<open>StopPending\<close>, and CancelRemove on a node
  whose state is not \<open>RemovePending\<close>, return the node with every field as it came and
  resolve the request by the forward-or-complete rule: a node for which \<open>is_fdo\<close> holds
  has the request forwarded to its lower device object, and any other node has it
  completed with success. No error status is produced. The same holds through the router
  (codes 6 and 3) for a node that is not \<open>Removed\<close>.
\<close>

theorem cancel_outside_pending_is_noop:
  "(PnPState vdev \<noteq> StopPending \<longrightarrow>
      pnp_cancel_stop_device e vdev irp =
        (vdev, irp,
         [if is_fdo e (type vdev) then Call_irp_pass_down (devobj_lower vdev)
          else Call_CompleteRequest STATUS_SUCCESS])) \<and>
   (PnPState vdev \<noteq> RemovePending \<longrightarrow>
      pnp_cancel_remove_device e vdev irp =
        (vdev, irp,
         [if is_fdo e (type vdev) then Call_irp_pass_down (devobj_lower vdev)
          else Call_CompleteRequest STATUS_SUCCESS])) \<and>
   (PnPState vdev \<noteq> StopPending \<and> PnPState vdev \<noteq> Removed \<and> MinorFunction irp = 6 \<longrightarrow>
      vhci_pnp e vdev irp =
        (vdev, irp,
         [if is_fdo e (type vdev) then Call_irp_pass_down (devobj_lower vdev)
          else Call_CompleteRequest STATUS_SUCCESS])) \<and>
   (PnPState vdev \<noteq> RemovePending \<and> PnPState vdev \<noteq> Removed \<and> MinorFunction irp = 3 \<longrightarrow>
      vhci_pnp e vdev irp =
        (vdev, irp,
         [if is_fdo e (type vdev) then Call_irp_pass_down (devobj_lower vdev)
          else Call_CompleteRequest STATUS_SUCCESS])) \<and>
   irp_pass_down_or_complete e vdev irp =
     (if is_fdo e (type vdev) then Call_irp_pass_down (devobj_lower vdev)
      else Call_CompleteRequest STATUS_SUCCESS)"
proof -
  have rule: "irp_pass_down_or_complete e vdev irp =
      (if is_fdo e (type vdev) then Call_irp_pass_down (devobj_lower vdev)
       else Call_CompleteRequest STATUS_SUCCESS)"
    by (simp add: irp_pass_down_or_complete_def CompleteRequest_default_def)
  have stop: "pnp_cancel_stop_device e vdev irp =
      (vdev, irp, [irp_pass_down_or_complete e vdev irp])" if "PnPState vdev \<noteq> StopPending"
    using that by (simp add: pnp_cancel_stop_device_def)
  have remove: "pnp_cancel_remove_device e vdev irp =
      (vdev, irp, [irp_pass_down_or_complete e vdev irp])" if "PnPState vdev \<noteq> RemovePending"
    using that by (simp add: pnp_cancel_remove_device_def)
  have r6: "vhci_pnp e vdev irp = pnp_cancel_stop_device e vdev irp"
    if "PnPState vdev \<noteq> Removed" "MinorFunction irp = 6"
    using that dispatch_in_range [of vdev irp 6 e] by (simp add: pnpmn_functions_nth)
  have r3: "vhci_pnp e vdev irp = pnp_cancel_remove_device e vdev irp"
    if "PnPState vdev \<noteq> Removed" "MinorFunction irp = 3"
    using that dispatch_in_range [of vdev irp 3 e] by (simp add: pnpmn_functions_nth)
  show ?thesis
    using stop remove r6 r3 unfolding rule by simp
qed

theorem cancel_outside_pending_is_noop_witness:
  "PnPState (sample_vdev VDEV_VHCI Started) \<noteq> StopPending \<and>
   PnPState (sample_vdev VDEV_VHCI Started) \<noteq> RemovePending \<and>
   PnPState (sample_vdev VDEV_VHCI Started) \<noteq> Removed \<and>
   is_fdo sample_env (type (sample_vdev VDEV_VHCI Started)) \<and>
   pnp_cancel_stop_device sample_env (sample_vdev VDEV_VHCI Started) (sample_irp 6) =
     (sample_vdev VDEV_VHCI Started, sample_irp 6, [Call_irp_pass_down (Some 1)]) \<and>
   pnp_cancel_remove_device sample_env (sample_vdev VDEV_VHCI Started) (sample_irp 3) =
     (sample_vdev VDEV_VHCI Started, sample_irp 3, [Call_irp_pass_down (Some 1)]) \<and>
   vhci_pnp sample_env (sample_vdev VDEV_VHCI Started) (sample_irp 6) =
     (sample_vdev VDEV_VHCI Started, sample_irp 6, [Call_irp_pass_down (Some 1)]) \<and>
   vhci_pnp sample_env (sample_vdev VDEV_VHCI Started) (sample_irp 3) =
     (sample_vdev VDEV_VHCI Started, sample_irp 3, [Call_irp_pass_down (Some 1)]) \<and>
   irp_pass_down_or_complete sample_env (sample_vdev VDEV_VHCI Started) (sample_irp 6) =
     Call_irp_pass_down (Some 1) \<and>
   PnPState (sample_vdev VDEV_CPDO Started) \<noteq> StopPending \<and>
   PnPState (sample_vdev VDEV_CPDO Started) \<noteq> RemovePending \<and>
   PnPState (sample_vdev VDEV_CPDO Started) \<noteq> Removed \<and>
   \<not> is_fdo sample_env (type (sample_vdev VDEV_CPDO Started)) \<and>
   pnp_cancel_stop_device sample_env (sample_vdev VDEV_CPDO Started) (sample_irp 6) =
     (sample_vdev VDEV_CPDO Started, sample_irp 6, [Call_CompleteRequest STATUS_SUCCESS]) \<and>
   pnp_cancel_remove_device sample_env (sample_vdev VDEV_CPDO Started) (sample_irp 3) =
     (sample_vdev VDEV_CPDO Started, sample_irp 3, [Call_CompleteRequest STATUS_SUCCESS]) \<and>
   vhci_pnp sample_env (sample_vdev VDEV_CPDO Started) (sample_irp 6) =
     (sample_vdev VDEV_CPDO Started, sample_irp 6, [Call_CompleteRequest STATUS_SUCCESS]) \<and>
   vhci_pnp sample_env (sample_vdev VDEV_CPDO Started) (sample_irp 3) =
     (sample_vdev VDEV_CPDO Started, sample_irp 3, [Call_CompleteRequest STATUS_SUCCESS]) \<and>
   irp_pass_down_or_complete sample_env (sample_vdev VDEV_CPDO Started) (sample_irp 6) =
     Call_CompleteRequest STATUS_SUCCESS"
proof -
  have state:
    "PnPState (sample_vdev VDEV_VHCI Started) = Started"
    "PnPState (sample_vdev VDEV_CPDO Started) = Started"
    by (simp_all add: sample_vdev_def)
  have kind:
    "is_fdo sample_env (type (sample_vdev VDEV_VHCI Started))"
    "\<not> is_fdo sample_env (type (sample_vdev VDEV_CPDO Started))"
    "devobj_lower (sample_vdev VDEV_VHCI Started) = Some 1"
    by (simp_all add: sample_vdev_def sample_env_def lower_layer_kinds_def)
  have code: "MinorFunction (sample_irp 6) = 6" "MinorFunction (sample_irp 3) = 3"
    by (simp_all add: sample_irp_def)
  from cancel_outside_pending_is_noop
         [of "sample_vdev VDEV_VHCI Started" sample_env "sample_irp 6"]
       cancel_outside_pending_is_noop
         [of "sample_vdev VDEV_VHCI Started" sample_env "sample_irp 3"]
       cancel_outside_pending_is_noop
         [of "sample_vdev VDEV_CPDO Started" sample_env "sample_irp 6"]
       cancel_outside_pending_is_noop
         [of "sample_vdev VDEV_CPDO Started" sample_env "sample_irp 3"]
       state kind code
  show ?thesis
    by simp
qed

text \<open>
  C6. On a started node, QueryStop (code 5) followed by CancelStop (code 6) leaves the
  state \<open>Started\<close> again: QueryStop saves \<open>Started\<close> in the previous state and enters
  \<open>StopPending\<close>, CancelStop restores the saved state. The node afterwards differs from
  the node before in the previous state only.
\<close>

theorem query_stop_cancel_stop_roundtrip:
  assumes "PnPState vdev = Started"
    and "MinorFunction irp1 = 5" and "MinorFunction irp2 = 6"
  shows "PnPState (fst (vhci_pnp e vdev irp1)) = StopPending \<and>
         PnPState (fst (vhci_pnp e (fst (vhci_pnp e vdev irp1)) irp2)) = Started \<and>
         fst (vhci_pnp e (fst (vhci_pnp e vdev irp1)) irp2) = vdev\<lparr>PreviousPnPState := Started\<rparr>"
proof -
  have q: "vhci_pnp e vdev irp1 = pnp_query_stop_device e vdev irp1"
    using assms dispatch_in_range [of vdev irp1 5 e] by (simp add: pnpmn_functions_nth)
  have v1: "fst (pnp_query_stop_device e vdev irp1) = set_state vdev StopPending"
    by (simp add: handler_vdev)
  have s1: "PnPState (set_state vdev StopPending) = StopPending"
    by (simp add: set_state_def)
  have c: "vhci_pnp e (set_state vdev StopPending) irp2 =
      pnp_cancel_stop_device e (set_state vdev StopPending) irp2"
    using assms(3) s1 dispatch_in_range [of "set_state vdev StopPending" irp2 6 e]
    by (simp add: pnpmn_functions_nth)
  have v2: "fst (pnp_cancel_stop_device e (set_state vdev StopPending) irp2) =
      set_previous_pnp_state (set_state vdev StopPending)"
    using s1 by (simp add: handler_vdev)
  have restored: "set_previous_pnp_state (set_state vdev StopPending) =
      vdev\<lparr>PreviousPnPState := Started\<rparr>"
    using assms(1) by (simp add: set_previous_pnp_state_def set_state_def)
  show ?thesis
    using assms(1) by (simp add: q v1 s1 c v2 restored)
qed

theorem query_stop_cancel_stop_roundtrip_witness:
  "PnPState (sample_vdev VDEV_VPDO Started) = Started \<and>
   MinorFunction (sample_irp 5) = 5 \<and> MinorFunction (sample_irp 6) = 6 \<and>
   PnPState (fst (vhci_pnp sample_env (sample_vdev VDEV_VPDO Started) (sample_irp 5))) =
     StopPending \<and>
   PnPState (fst (vhci_pnp sample_env
       (fst (vhci_pnp sample_env (sample_vdev VDEV_VPDO Started) (sample_irp 5))) (sample_irp 6))) =
     Started"
proof -
  have started: "PnPState (sample_vdev VDEV_VPDO Started) = Started"
    by (simp add: sample_vdev_def)
  have m5: "MinorFunction (sample_irp 5) = 5" and m6: "MinorFunction (sample_irp 6) = 6"
    by (simp_all add: sample_irp_def)
  from query_stop_cancel_stop_roundtrip [OF started m5 m6, of sample_env] started m5 m6
  show ?thesis
    by simp
qed

section \<open>The query handlers\<close>

text \<open>
  C7, as stated, fails. The handler asks the registry first: when \<open>GetDeviceProperty\<close>
  yields a description, that string is returned, also for a port node that has a product
  string.
\<close>

theorem pnp_query_device_text_counterexample:
  "type (sample_vdev VDEV_VPDO Started) = VDEV_VPDO \<and>
   DeviceTextType (sample_irp 12) = DeviceTextDescription \<and>
   get_product registry_env (sample_vdev VDEV_VPDO Started) = Some ''Flash Disk'' \<and>
   libdrv_strdup registry_env ''Flash Disk'' = Some ''Flash Disk'' \<and>
   GetDeviceProperty registry_env (sample_vdev VDEV_VPDO Started) DevicePropertyDeviceDescription =
     Some ''USB Mass Storage Device'' \<and>
   Information (IoStatus (fst (snd (pnp_query_device_text registry_env
       (sample_vdev VDEV_VPDO Started) (sample_irp 12))))) = Info_wstr ''USB Mass Storage Device'' \<and>
   Information (IoStatus (fst (snd (pnp_query_device_text registry_env
       (sample_vdev VDEV_VPDO Started) (sample_irp 12))))) \<noteq> Info_wstr ''Flash Disk''"
  by (simp add: pnp_query_device_text_def query_device_text_fill_def registry_env_def
      product_env_def sample_env_def sample_vdev_def sample_irp_def Let_def)

text \<open>
  C7, amended. For the text kind Description, on a request whose \<open>Information\<close> is null
  as the handler asserts: when \<open>GetDeviceProperty\<close> yields a string, that string is
  returned, for every kind of node; when it yields none, a port node with a product
  string whose duplication succeeds returns the product string; when it yields none and
  the node is of another kind or has no product string, the description of the kind from
  \<open>vdev_desc\<close> is returned, provided its duplication succeeds. In these three cases the
  status is set to success and the request is completed as it is. A text kind that is
  neither Description nor LocationInformation is completed with
  \<open>STATUS_INVALID_PARAMETER\<close>.
\<close>

theorem pnp_query_device_text_description:
  assumes "Information (IoStatus irp) = Info_bits 0"
  shows
   "(DeviceTextType irp = DeviceTextDescription \<and>
     GetDeviceProperty e vdev DevicePropertyDeviceDescription = Some str \<longrightarrow>
       pnp_query_device_text e vdev irp =
         (vdev, irp\<lparr>IoStatus := \<lparr>Status = STATUS_SUCCESS, Information = Info_wstr str\<rparr>\<rparr>,
          [Call_CompleteRequestAsIs])) \<and>
    (DeviceTextType irp = DeviceTextDescription \<and>
     GetDeviceProperty e vdev DevicePropertyDeviceDescription = None \<and>
     type vdev = VDEV_VPDO \<and> get_product e vdev = Some p \<and> libdrv_strdup e p = Some p \<longrightarrow>
       pnp_query_device_text e vdev irp =
         (vdev, irp\<lparr>IoStatus := \<lparr>Status = STATUS_SUCCESS, Information = Info_wstr p\<rparr>\<rparr>,
          [Call_CompleteRequestAsIs])) \<and>
    (DeviceTextType irp = DeviceTextDescription \<and>
     GetDeviceProperty e vdev DevicePropertyDeviceDescription = None \<and>
     (type vdev \<noteq> VDEV_VPDO \<or> get_product e vdev = None) \<and>
     libdrv_strdup e (vdev_desc ! vdev_type_index (type vdev)) =
       Some (vdev_desc ! vdev_type_index (type vdev)) \<longrightarrow>
       pnp_query_device_text e vdev irp =
         (vdev,
          irp\<lparr>IoStatus := \<lparr>Status = STATUS_SUCCESS,
                           Information = Info_wstr (vdev_desc ! vdev_type_index (type vdev))\<rparr>\<rparr>,
          [Call_CompleteRequestAsIs])) \<and>
    (DeviceTextType irp \<noteq> DeviceTextDescription \<and>
     DeviceTextType irp \<noteq> DeviceTextLocationInformation \<longrightarrow>
       pnp_query_device_text e vdev irp =
         (vdev, irp, [Call_CompleteRequest STATUS_INVALID_PARAMETER]))"
  using assms
  by (auto simp: pnp_query_device_text_def query_device_text_fill_def copy_str_def Let_def)

theorem pnp_query_device_text_description_witness:
  "Information (IoStatus (sample_irp 12)) = Info_bits 0 \<and>
   DeviceTextType (sample_irp 12) = DeviceTextDescription \<and>
   pnp_query_device_text registry_env (sample_vdev VDEV_VPDO Started) (sample_irp 12) =
     (sample_vdev VDEV_VPDO Started,
      (sample_irp 12)\<lparr>IoStatus := \<lparr>Status = STATUS_SUCCESS,
                                    Information = Info_wstr ''USB Mass Storage Device''\<rparr>\<rparr>,
      [Call_CompleteRequestAsIs]) \<and>
   pnp_query_device_text product_env (sample_vdev VDEV_VPDO Started) (sample_irp 12) =
     (sample_vdev VDEV_VPDO Started,
      (sample_irp 12)\<lparr>IoStatus := \<lparr>Status = STATUS_SUCCESS,
                                    Information = Info_wstr ''Flash Disk''\<rparr>\<rparr>,
      [Call_CompleteRequestAsIs]) \<and>
   pnp_query_device_text product_env (sample_vdev VDEV_VHUB Started) (sample_irp 12) =
     (sample_vdev VDEV_VHUB Started,
      (sample_irp 12)\<lparr>IoStatus := \<lparr>Status = STATUS_SUCCESS,
                                    Information = Info_wstr ''usbip-win VHUB''\<rparr>\<rparr>,
      [Call_CompleteRequestAsIs]) \<and>
   pnp_query_device_text sample_env (sample_vdev VDEV_VPDO Started) (sample_irp 12) =
     (sample_vdev VDEV_VPDO Started,
      (sample_irp 12)\<lparr>IoStatus := \<lparr>Status = STATUS_SUCCESS,
                                    Information = Info_wstr ''usbip-win VPDO''\<rparr>\<rparr>,
      [Call_CompleteRequestAsIs]) \<and>
   pnp_query_device_text sample_env (sample_vdev VDEV_VPDO Started)
       ((sample_irp 12)\<lparr>DeviceTextType := 7\<rparr>) =
     (sample_vdev VDEV_VPDO Started, (sample_irp 12)\<lparr>DeviceTextType := 7\<rparr>,
      [Call_CompleteRequest STATUS_INVALID_PARAMETER])"
proof -
  have null: "Information (IoStatus (sample_irp 12)) = Info_bits 0"
    and null': "Information (IoStatus ((sample_irp 12)\<lparr>DeviceTextType := 7\<rparr>)) = Info_bits 0"
    and kind: "DeviceTextType (sample_irp 12) = DeviceTextDescription"
    by (simp_all add: sample_irp_def)
  have other: "DeviceTextType ((sample_irp 12)\<lparr>DeviceTextType := 7\<rparr>) \<noteq> DeviceTextDescription"
      "DeviceTextType ((sample_irp 12)\<lparr>DeviceTextType := 7\<rparr>) \<noteq> DeviceTextLocationInformation"
    by (simp_all add: DeviceTextDescription_def DeviceTextLocationInformation_def)
  have port: "type (sample_vdev VDEV_VPDO Started) = VDEV_VPDO"
    and hub: "type (sample_vdev VDEV_VHUB Started) = VDEV_VHUB"
    by (simp_all add: sample_vdev_def)
  have envs:
    "GetDeviceProperty registry_env (sample_vdev VDEV_VPDO Started) DevicePropertyDeviceDescription
       = Some ''USB Mass Storage Device''"
    "GetDeviceProperty product_env (sample_vdev VDEV_VPDO Started) DevicePropertyDeviceDescription
       = None"
    "GetDeviceProperty product_env (sample_vdev VDEV_VHUB Started) DevicePropertyDeviceDescription
       = None"
    "GetDeviceProperty sample_env (sample_vdev VDEV_VPDO Started) DevicePropertyDeviceDescription
       = None"
    "get_product product_env (sample_vdev VDEV_VPDO Started) = Some ''Flash Disk''"
    "get_product sample_env (sample_vdev VDEV_VPDO Started) = None"
    "libdrv_strdup product_env = Some" "libdrv_strdup sample_env = Some"
    by (simp_all add: registry_env_def product_env_def sample_env_def)
  have descs: "vdev_desc ! vdev_type_index VDEV_VHUB = ''usbip-win VHUB''"
    "vdev_desc ! vdev_type_index VDEV_VPDO = ''usbip-win VPDO''"
    by (simp_all add: vdev_desc_def)
  from pnp_query_device_text_description
         [OF null, of registry_env "sample_vdev VDEV_VPDO Started" "''USB Mass Storage Device''"]
       pnp_query_device_text_description
         [OF null, of product_env "sample_vdev VDEV_VPDO Started" _ "''Flash Disk''"]
       pnp_query_device_text_description
         [OF null, of product_env "sample_vdev VDEV_VHUB Started"]
       pnp_query_device_text_description
         [OF null, of sample_env "sample_vdev VDEV_VPDO Started"]
       pnp_query_device_text_description
         [OF null', of sample_env "sample_vdev VDEV_VPDO Started"]
       null kind other port hub envs descs
  show ?thesis
    by simp
qed

text \<open>
  C9, as stated, fails. A controller node has a lower layer, so the default rule would
  forward the request; Eject completes it as it is and forwards nothing.
\<close>

theorem pnp_eject_counterexample:
  "type (sample_vdev VDEV_VHCI Started) \<noteq> VDEV_VPDO \<and>
   is_fdo sample_env (type (sample_vdev VDEV_VHCI Started)) \<and>
   devobj_lower (sample_vdev VDEV_VHCI Started) = Some 1 \<and>
   irp_pass_down_or_complete sample_env (sample_vdev VDEV_VHCI Started) (sample_irp 17) =
     Call_irp_pass_down (Some 1) \<and>
   snd (snd (pnp_eject sample_env (sample_vdev VDEV_VHCI Started) (sample_irp 17))) =
     [Call_CompleteRequestAsIs] \<and>
   snd (snd (pnp_eject sample_env (sample_vdev VDEV_VHCI Started) (sample_irp 17))) \<noteq>
     [irp_pass_down_or_complete sample_env (sample_vdev VDEV_VHCI Started) (sample_irp 17)]"
  by (simp add: pnp_eject_def sample_vdev_def sample_env_def irp_pass_down_or_complete_def
      lower_layer_kinds_def)

text \<open>
  C9, amended. Eject on a port node calls the unplug function and then completes the
  request with success. On every other kind of node Eject completes the request locally
  with the status it carries, whether or not the node has a lower layer; it forwards
  nothing and leaves the node as it came. The router hands code 17 of a node that is
  not \<open>Removed\<close> to this handler.
\<close>

theorem pnp_eject_by_kind:
  "(type vdev = VDEV_VPDO \<longrightarrow>
      pnp_eject e vdev irp =
        (vhub_unplug_vpdo e vdev, irp,
         [Call_vhub_unplug_vpdo, Call_CompleteRequest STATUS_SUCCESS])) \<and>
   (type vdev \<noteq> VDEV_VPDO \<longrightarrow>
      pnp_eject e vdev irp = (vdev, irp, [Call_CompleteRequestAsIs])) \<and>
   (PnPState vdev \<noteq> Removed \<and> MinorFunction irp = 17 \<longrightarrow>
      vhci_pnp e vdev irp = pnp_eject e vdev irp)"
proof -
  have router: "vhci_pnp e vdev irp = pnp_eject e vdev irp"
    if "PnPState vdev \<noteq> Removed" "MinorFunction irp = 17"
    using that dispatch_in_range [of vdev irp 17 e] by (simp add: pnpmn_functions_nth)
  show ?thesis
    using router by (simp add: pnp_eject_def CompleteRequest_default_def)
qed

theorem pnp_eject_by_kind_witness:
  "type (sample_vdev VDEV_VPDO Started) = VDEV_VPDO \<and>
   pnp_eject sample_env (sample_vdev VDEV_VPDO Started) (sample_irp 17) =
     (sample_vdev VDEV_VPDO Started, sample_irp 17,
      [Call_vhub_unplug_vpdo, Call_CompleteRequest STATUS_SUCCESS]) \<and>
   type (sample_vdev VDEV_VHUB Started) \<noteq> VDEV_VPDO \<and>
   PnPState (sample_vdev VDEV_VHUB Started) \<noteq> Removed \<and>
   MinorFunction (sample_irp 17) = 17 \<and>
   vhci_pnp sample_env (sample_vdev VDEV_VHUB Started) (sample_irp 17) =
     (sample_vdev VDEV_VHUB Started, sample_irp 17, [Call_CompleteRequestAsIs])"
proof -
  have port: "type (sample_vdev VDEV_VPDO Started) = VDEV_VPDO"
    and hub: "type (sample_vdev VDEV_VHUB Started) \<noteq> VDEV_VPDO"
    and alive: "PnPState (sample_vdev VDEV_VHUB Started) \<noteq> Removed"
    by (simp_all add: sample_vdev_def)
  have code: "MinorFunction (sample_irp 17) = 17"
    by (simp add: sample_irp_def)
  have unplug: "vhub_unplug_vpdo sample_env (sample_vdev VDEV_VPDO Started) =
      sample_vdev VDEV_VPDO Started"
    by (simp add: sample_env_def)
  from pnp_eject_by_kind [of "sample_vdev VDEV_VPDO Started" sample_env "sample_irp 17"]
       pnp_eject_by_kind [of "sample_vdev VDEV_VHUB Started" sample_env "sample_irp 17"]
       port hub alive code unplug
  show ?thesis
    by simp
qed

section \<open>The class filter list\<close>

declare split_multi_sz_loop.simps [simp del]

declare read_multi_z_loop.simps [simp del]

lemma split_stop: "split_multi_sz_loop (0 # rest) ex exd v = Some (v, exd)"
  by (subst split_multi_sz_loop.simps) simp

lemma split_step:
  assumes "s \<noteq> []" and "0 \<notin> set s"
  shows "split_multi_sz_loop (s @ 0 # rest) ex exd v =
           split_multi_sz_loop rest ex (exd \<or> s = ex) (if s = ex then v else v @ [s])"
proof -
  have tw: "takeWhile (\<lambda>c. c \<noteq> 0) (s @ 0 # rest) = s"
    using assms(2) by (induction s) auto
  have hd: "hd (s @ 0 # rest) \<noteq> 0"
    using assms by (cases s) auto
  show ?thesis
    using assms(1) hd by (subst split_multi_sz_loop.simps) (simp add: tw Let_def)
qed

lemma split_encoded:
  assumes "list_all (\<lambda>s. s \<noteq> [] \<and> 0 \<notin> set s) xs"
  shows "split_multi_sz_loop (make_multi_sz xs @ pad) ex exd v =
           Some (v @ filter (\<lambda>s. s \<noteq> ex) xs, exd \<or> ex \<in> set xs)"
  using assms
proof (induction xs arbitrary: exd v)
  case Nil
  then show ?case by (simp add: split_stop)
next
  case (Cons s xs)
  then have s: "s \<noteq> []" "0 \<notin> set s" and xs: "list_all (\<lambda>s. s \<noteq> [] \<and> 0 \<notin> set s) xs"
    by simp_all
  have "split_multi_sz_loop (make_multi_sz (s # xs) @ pad) ex exd v =
      split_multi_sz_loop (s @ 0 # (make_multi_sz xs @ pad)) ex exd v"
    by simp
  also have "\<dots> = split_multi_sz_loop (make_multi_sz xs @ pad) ex (exd \<or> s = ex)
      (if s = ex then v else v @ [s])"
    by (rule split_step [OF s])
  also have "\<dots> = Some ((if s = ex then v else v @ [s]) @ filter (\<lambda>s. s \<noteq> ex) xs,
      (exd \<or> s = ex) \<or> ex \<in> set xs)"
    by (rule Cons.IH [OF xs])
  finally show ?case
    by auto
qed

lemma padded_cut:
  assumes "padded buf" and "buf \<noteq> []" and "hd buf \<noteq> 0"
  shows "\<exists>s rest. buf = s @ 0 # rest \<and> s \<noteq> [] \<and> 0 \<notin> set s \<and> padded rest"
proof -
  from assms obtain xs where buf: "buf = xs @ [0, 0]"
    by (auto simp: padded_def)
  define s where "s = takeWhile (\<lambda>c. c \<noteq> 0) buf"
  define rest where "rest = tl (dropWhile (\<lambda>c. c \<noteq> 0) buf)"
  have zero: "0 \<in> set buf"
    using buf by simp
  then have dw: "dropWhile (\<lambda>c. c \<noteq> 0) buf \<noteq> []"
    by (auto simp: dropWhile_eq_Nil_conv)
  then have hd0: "hd (dropWhile (\<lambda>c. c \<noteq> 0) buf) = 0"
    using hd_dropWhile [of "\<lambda>c. c \<noteq> 0" buf] by simp
  have split: "buf = s @ 0 # rest"
  proof -
    have "dropWhile (\<lambda>c. c \<noteq> 0) buf = 0 # rest"
      using dw hd0 unfolding rest_def by (cases "dropWhile (\<lambda>c. c \<noteq> 0) buf") auto
    then show ?thesis
      using takeWhile_dropWhile_id [of "\<lambda>c. c \<noteq> 0" buf] unfolding s_def by simp
  qed
  have s1: "s \<noteq> []"
    using assms(2,3) unfolding s_def by (cases buf) auto
  have s2: "0 \<notin> set s"
    unfolding s_def by (auto dest: set_takeWhileD)
  have "padded rest"
  proof (cases rest rule: rev_cases)
    case Nil
    with split buf have "s @ [0] = (xs @ [0]) @ [0]"
      by simp
    then have "s = xs @ [0]"
      by (simp only: append1_eq_conv)
    with s2 show ?thesis
      by simp
  next
    case outer: (snoc ys y)
    show ?thesis
    proof (cases ys rule: rev_cases)
      case Nil
      with outer split buf have "(s @ [0]) @ [y] = (xs @ [0]) @ [0]"
        by simp
      then have "y = 0"
        by (simp only: append1_eq_conv)
      with Nil outer show ?thesis
        by (simp add: padded_def)
    next
      case (snoc zs z)
      with outer have rest: "rest = zs @ [z, y]"
        by simp
      with split buf have "((s @ 0 # zs) @ [z]) @ [y] = (xs @ [0]) @ [0]"
        by simp
      then have "(s @ 0 # zs) @ [z] = xs @ [0]" and "y = 0"
        by (simp_all only: append1_eq_conv)
      then have "z = 0 \<and> y = 0"
        by (simp only: append1_eq_conv)
      with rest show ?thesis
        by (auto simp: padded_def)
    qed
  qed
  with split s1 s2 show ?thesis
    by blast
qed

lemma split_padded:
  "padded buf \<Longrightarrow>
   \<exists>w. list_all (\<lambda>s. s \<noteq> [] \<and> 0 \<notin> set s) w \<and>
       (\<forall>ex exd v. split_multi_sz_loop buf ex exd v =
          Some (v @ filter (\<lambda>s. s \<noteq> ex) w, exd \<or> ex \<in> set w))"
proof (induction buf rule: length_induct)
  case (1 buf)
  have ne: "buf \<noteq> []"
    using "1.prems" by (auto simp: padded_def)
  show ?case
  proof (cases "hd buf = 0")
    case True
    with ne obtain rest where "buf = 0 # rest"
      by (cases buf) auto
    then have "\<forall>ex exd v. split_multi_sz_loop buf ex exd v =
        Some (v @ filter (\<lambda>s. s \<noteq> ex) [], exd \<or> ex \<in> set [])"
      by (simp add: split_stop)
    then show ?thesis
      by (intro exI [of _ "[]"]) simp
  next
    case False
    from padded_cut [OF "1.prems" ne False]
    obtain s rest where cut: "buf = s @ 0 # rest" "s \<noteq> []" "0 \<notin> set s" "padded rest"
      by blast
    then have "length rest < length buf"
      by simp
    with "1.IH" cut(4) obtain w where
      w: "list_all (\<lambda>s. s \<noteq> [] \<and> 0 \<notin> set s) w"
        "\<And>ex exd v. split_multi_sz_loop rest ex exd v =
           Some (v @ filter (\<lambda>s. s \<noteq> ex) w, exd \<or> ex \<in> set w)"
      by blast
    have "split_multi_sz_loop buf ex exd v =
        Some (v @ filter (\<lambda>s. s \<noteq> ex) (s # w), exd \<or> ex \<in> set (s # w))" for ex exd v
      unfolding cut(1) split_step [OF cut(2,3)] w(2) by auto
    moreover have "list_all (\<lambda>s. s \<noteq> [] \<and> 0 \<notin> set s) (s # w)"
      using w(1) cut(2,3) by simp
    ultimately show ?thesis
      by blast
  qed
qed

lemma padded_buffer:
  assumes "2 \<le> k"
  shows "padded (d @ replicate k 0)"
proof -
  from assms obtain j where k: "k = j + 2"
    by (metis add.commute le_Suc_ex)
  have "replicate k (0::WCHAR) = replicate j 0 @ [0, 0]"
    unfolding k replicate_add by (simp add: numeral_2_eq_2)
  then have "d @ replicate k 0 = (d @ replicate j 0) @ [0, 0]"
    by simp
  then show ?thesis
    unfolding padded_def by blast
qed

lemma read_multi_z_absent:
  assumes "\<not> RegGetValue_denied sys" and "reg_values key name = None"
  shows "read_multi_z sys key name val = Some []"
  using assms unfolding read_multi_z_def
  by (subst read_multi_z_loop.simps) (simp add: RegGetValue_def)

lemma read_multi_z_present:
  assumes "\<not> RegGetValue_denied sys" and "reg_values key name = Some d"
  shows "\<exists>k\<ge>2. read_multi_z sys key name (replicate 4096 0) = Some (d @ replicate k 0)"
proof (cases "2 * length d \<le> 4096")
  case True
  then have "read_multi_z sys key name (replicate 4096 0) =
      Some (d @ replicate (4096 - length d) 0)"
    using assms unfolding read_multi_z_def
    by (subst read_multi_z_loop.simps)
       (simp add: RegGetValue_def ERROR_SUCCESS_def ERROR_FILE_NOT_FOUND_def)
  moreover have "2 \<le> 4096 - length d"
    using True by simp
  ultimately show ?thesis
    by blast
next
  case False
  then have big: "4096 < 2 * length d"
    by simp
  have first: "RegGetValue sys key name (replicate 4096 0) 4096 =
      (ERROR_MORE_DATA, replicate 4096 0, 2 * length d)"
    using assms big by (simp add: RegGetValue_def)
  have grow: "resize (replicate 4096 0) (2 * length d) = replicate (2 * length d) 0"
    using big by (simp add: resize_def replicate_add [symmetric] del: replicate_add)
  have second: "RegGetValue sys key name (replicate (2 * length d) 0) (2 * length d) =
      (ERROR_SUCCESS, d @ replicate (length d) 0, 2 * length d)"
    using assms by (simp add: RegGetValue_def)
  have "read_multi_z_loop sys key name (replicate 4096 0) 4096 =
      read_multi_z_loop sys key name (replicate (2 * length d) 0) (2 * length d)"
    by (subst read_multi_z_loop.simps)
       (simp add: first grow ERROR_MORE_DATA_def ERROR_SUCCESS_def ERROR_FILE_NOT_FOUND_def)
  also have "\<dots> = Some (d @ replicate (length d) 0)"
    by (subst read_multi_z_loop.simps)
       (simp add: second ERROR_SUCCESS_def ERROR_FILE_NOT_FOUND_def)
  finally have "read_multi_z sys key name (replicate 4096 0) = Some (d @ replicate (length d) 0)"
    by (simp add: read_multi_z_def)
  moreover have "2 \<le> length d"
    using big by simp
  ultimately show ?thesis
    by blast
qed

lemma make_multi_sz_not_Nil: "make_multi_sz xs \<noteq> []"
  by (cases xs) simp_all

lemma read_and_split:
  assumes "\<not> RegGetValue_denied sys"
  obtains val w where
    "read_multi_z sys key name (replicate 4096 0) = Some val"
    "list_all (\<lambda>s. s \<noteq> [] \<and> 0 \<notin> set s) w"
    "\<And>ex exd. split_multi_sz (if val = [] then None else Some val) ex exd =
        Some (filter (\<lambda>s. s \<noteq> ex) w, exd \<or> ex \<in> set w)"
proof (cases "reg_values key name")
  case None
  have "read_multi_z sys key name (replicate 4096 0) = Some []"
    by (rule read_multi_z_absent [OF assms None])
  moreover have "split_multi_sz (if [] = ([]::WCHAR list) then None else Some []) ex exd =
      Some (filter (\<lambda>s. s \<noteq> ex) [], exd \<or> ex \<in> set [])" for ex exd
    by (simp add: split_multi_sz_def)
  ultimately show ?thesis
    using that [of "[]" "[]"] by simp
next
  case (Some d)
  from read_multi_z_present [OF assms Some] obtain k where
    k: "2 \<le> k" "read_multi_z sys key name (replicate 4096 0) = Some (d @ replicate k 0)"
    by blast
  from split_padded [OF padded_buffer [OF k(1), of d]] obtain w where
    w: "list_all (\<lambda>s. s \<noteq> [] \<and> 0 \<notin> set s) w"
      "\<And>ex exd v. split_multi_sz_loop (d @ replicate k 0) ex exd v =
         Some (v @ filter (\<lambda>s. s \<noteq> ex) w, exd \<or> ex \<in> set w)"
    by blast
  have ne: "d @ replicate k 0 \<noteq> []"
    using k(1) by auto
  have "split_multi_sz (if d @ replicate k 0 = [] then None else Some (d @ replicate k 0)) ex exd =
      Some (filter (\<lambda>s. s \<noteq> ex) w, exd \<or> ex \<in> set w)" for ex exd
    unfolding if_not_P [OF ne] by (simp add: split_multi_sz_def w(2))
  with k(2) w(1) show ?thesis
    using that [of "d @ replicate k 0" w] by blast
qed

lemma read_and_split_encoded:
  assumes "\<not> RegGetValue_denied sys"
    and "reg_values key name = Some (make_multi_sz xs)"
    and "list_all (\<lambda>s. s \<noteq> [] \<and> 0 \<notin> set s) xs"
  obtains val where
    "read_multi_z sys key name (replicate 4096 0) = Some val"
    "\<And>ex exd. split_multi_sz (if val = [] then None else Some val) ex exd =
        Some (filter (\<lambda>s. s \<noteq> ex) xs, exd \<or> ex \<in> set xs)"
proof -
  from read_multi_z_present [OF assms(1,2)] obtain k where
    k: "read_multi_z sys key name (replicate 4096 0) = Some (make_multi_sz xs @ replicate k 0)"
    by blast
  have "split_multi_sz (if make_multi_sz xs @ replicate k 0 = [] then None
                        else Some (make_multi_sz xs @ replicate k 0)) ex exd =
      Some (filter (\<lambda>s. s \<noteq> ex) xs, exd \<or> ex \<in> set xs)" for ex exd
    by (simp add: split_multi_sz_def make_multi_sz_not_Nil split_encoded [OF assms(3)])
  with k show ?thesis
    using that by blast
qed

lemma filter_nonempty:
  "list_all (\<lambda>s. s \<noteq> [] \<and> 0 \<notin> set s) w \<Longrightarrow> filter (\<lambda>s. s \<noteq> []) w = w"
  by (induction w) auto

lemma classfilter_add_writes:
  assumes "get_class_guid sys" and "SetupDiOpenClassRegKeyEx_ok sys"
    and "RegSetValueEx_err sys = ERROR_SUCCESS"
    and "name = (if level r = opt_upper then REGSTR_VAL_UPPERFILTERS
                 else REGSTR_VAL_LOWERFILTERS)"
    and "read_multi_z sys key name (replicate 4096 0) = Some val"
    and "split_multi_sz (if val = [] then None else Some val) (driver_name r) True = Some (v, True)"
  shows "classfilter sys r True key =
           Some (True,
             key\<lparr>RegSetValueEx_log :=
                    RegSetValueEx_log key @ [(name, make_multi_sz (v @ [driver_name r]))],
                 reg_values := (reg_values key)(name \<mapsto> make_multi_sz (v @ [driver_name r]))\<rparr>)"
  using assms(1,2,3,5,6) unfolding assms(4)
  by (simp add: classfilter_def RegSetValueEx_def Let_def ERROR_SUCCESS_def)

lemma persisted_list_encoded:
  assumes "\<not> RegGetValue_denied sys"
    and "reg_values key name = Some (make_multi_sz xs)"
    and "list_all (\<lambda>s. s \<noteq> [] \<and> 0 \<notin> set s) xs"
  shows "persisted_list sys key name = Some xs"
proof -
  from read_and_split_encoded [OF assms] obtain val where
    "read_multi_z sys key name (replicate 4096 0) = Some val"
    "\<And>ex exd. split_multi_sz (if val = [] then None else Some val) ex exd =
        Some (filter (\<lambda>s. s \<noteq> ex) xs, exd \<or> ex \<in> set xs)"
    by blast
  then show ?thesis
    by (simp add: persisted_list_def filter_nonempty [OF assms(3)])
qed

lemma ok_os_facts:
  "get_class_guid ok_os" "SetupDiOpenClassRegKeyEx_ok ok_os" "\<not> RegGetValue_denied ok_os"
  "RegSetValueEx_err ok_os = ERROR_SUCCESS"
  by (simp_all add: ok_os_def get_class_guid_def)

lemma flt_args_facts:
  "driver_name flt_args = flt" "flt \<noteq> []" "0 \<notin> set flt"
  "REGSTR_VAL_UPPERFILTERS =
     (if level flt_args = opt_upper then REGSTR_VAL_UPPERFILTERS else REGSTR_VAL_LOWERFILTERS)"
  by (simp_all add: flt_args_def flt_def opt_upper_def)

text \<open>
  C8, as stated, fails in its second half. With \<open>add\<close> the flag \<open>modified\<close> starts as
  true and nothing clears it, so every add writes the value. On a key without filters the
  first add stores the list of the one name; the second add finds the name in the list,
  and calls \<open>RegSetValueEx\<close> again, with the same data.
\<close>

theorem classfilter_add_second_write_counterexample:
  "persisted_list ok_os empty_key REGSTR_VAL_UPPERFILTERS = Some [] \<and>
   classfilter ok_os flt_args True empty_key = Some (True, flt_key) \<and>
   persisted_list ok_os flt_key REGSTR_VAL_UPPERFILTERS = Some [flt] \<and>
   RegSetValueEx_log flt_key = [(REGSTR_VAL_UPPERFILTERS, make_multi_sz [flt])] \<and>
   classfilter ok_os flt_args True flt_key =
     Some (True,
       flt_key\<lparr>RegSetValueEx_log :=
                 [(REGSTR_VAL_UPPERFILTERS, make_multi_sz [flt]),
                  (REGSTR_VAL_UPPERFILTERS, make_multi_sz [flt])]\<rparr>) \<and>
   classfilter ok_os flt_args True flt_key \<noteq> Some (True, flt_key) \<and>
   make_multi_sz [flt] = [0x66, 0x6C, 0x74, 0, 0]"
proof -
  have wf: "list_all (\<lambda>s. s \<noteq> [] \<and> 0 \<notin> set s) [flt]"
    by (simp add: flt_def)
  have read0: "read_multi_z ok_os empty_key REGSTR_VAL_UPPERFILTERS (replicate 4096 0) = Some []"
    by (rule read_multi_z_absent [OF ok_os_facts(3)]) (simp add: empty_key_def)
  have before: "persisted_list ok_os empty_key REGSTR_VAL_UPPERFILTERS = Some []"
    by (simp add: persisted_list_def read0 split_multi_sz_def)
  have "classfilter ok_os flt_args True empty_key =
      Some (True, empty_key\<lparr>RegSetValueEx_log := RegSetValueEx_log empty_key @
           [(REGSTR_VAL_UPPERFILTERS, make_multi_sz ([] @ [driver_name flt_args]))],
         reg_values := (reg_values empty_key)
           (REGSTR_VAL_UPPERFILTERS \<mapsto> make_multi_sz ([] @ [driver_name flt_args]))\<rparr>)"
    by (rule classfilter_add_writes [OF ok_os_facts(1,2,4) flt_args_facts(4) read0])
       (simp add: split_multi_sz_def)
  then have first: "classfilter ok_os flt_args True empty_key = Some (True, flt_key)"
    by (simp add: flt_key_def empty_key_def flt_args_facts(1))
  have stored: "reg_values flt_key REGSTR_VAL_UPPERFILTERS = Some (make_multi_sz [flt])"
    by (simp add: flt_key_def)
  have between: "persisted_list ok_os flt_key REGSTR_VAL_UPPERFILTERS = Some [flt]"
    by (rule persisted_list_encoded [OF ok_os_facts(3) stored wf])
  have log1: "RegSetValueEx_log flt_key = [(REGSTR_VAL_UPPERFILTERS, make_multi_sz [flt])]"
    by (simp add: flt_key_def)
  from read_and_split_encoded [OF ok_os_facts(3) stored wf] obtain val1 where
    val1: "read_multi_z ok_os flt_key REGSTR_VAL_UPPERFILTERS (replicate 4096 0) = Some val1"
    and split1: "\<And>ex exd. split_multi_sz (if val1 = [] then None else Some val1) ex exd =
        Some (filter (\<lambda>s. s \<noteq> ex) [flt], exd \<or> ex \<in> set [flt])"
    by blast
  have "classfilter ok_os flt_args True flt_key =
      Some (True, flt_key\<lparr>RegSetValueEx_log := RegSetValueEx_log flt_key @
           [(REGSTR_VAL_UPPERFILTERS, make_multi_sz ([] @ [driver_name flt_args]))],
         reg_values := (reg_values flt_key)
           (REGSTR_VAL_UPPERFILTERS \<mapsto> make_multi_sz ([] @ [driver_name flt_args]))\<rparr>)"
    by (rule classfilter_add_writes [OF ok_os_facts(1,2,4) flt_args_facts(4) val1])
       (simp add: split1 flt_args_facts(1))
  then have second: "classfilter ok_os flt_args True flt_key =
      Some (True,
        flt_key\<lparr>RegSetValueEx_log :=
                  [(REGSTR_VAL_UPPERFILTERS, make_multi_sz [flt]),
                   (REGSTR_VAL_UPPERFILTERS, make_multi_sz [flt])]\<rparr>)"
    by (simp add: flt_key_def flt_args_facts(1))
  have differ: "classfilter ok_os flt_args True flt_key \<noteq> Some (True, flt_key)"
    unfolding second by (simp add: flt_key_def)
  have bytes: "make_multi_sz [flt] = [0x66, 0x6C, 0x74, 0, 0]"
    by (simp add: flt_def)
  show ?thesis
    using before first between log1 second differ bytes by blast
qed

text \<open>
  C8, amended. Where the operating system reports no error, for a driver name that is
  not empty and holds no terminator, and any content of the registry value: both adds
  return true; after the first and after the second add the persisted list is the former
  list without the name, followed by the name, so it holds the name exactly once; each
  of the two adds calls \<open>RegSetValueEx\<close> once, the second with the data the first has
  stored, so the second add writes again and changes nothing.
\<close>

theorem classfilter_add_twice:
  assumes "get_class_guid sys" and "SetupDiOpenClassRegKeyEx_ok sys"
    and "\<not> RegGetValue_denied sys" and "RegSetValueEx_err sys = ERROR_SUCCESS"
    and "driver_name r \<noteq> []" and "0 \<notin> set (driver_name r)"
    and "name = (if level r = opt_upper then REGSTR_VAL_UPPERFILTERS
                 else REGSTR_VAL_LOWERFILTERS)"
  shows "\<exists>l key1 key2.
           persisted_list sys key name = Some l \<and>
           classfilter sys r True key = Some (True, key1) \<and>
           classfilter sys r True key1 = Some (True, key2) \<and>
           persisted_list sys key1 name =
             Some (filter (\<lambda>s. s \<noteq> driver_name r) l @ [driver_name r]) \<and>
           persisted_list sys key2 name =
             Some (filter (\<lambda>s. s \<noteq> driver_name r) l @ [driver_name r]) \<and>
           count_list (filter (\<lambda>s. s \<noteq> driver_name r) l @ [driver_name r]) (driver_name r) = 1 \<and>
           reg_values key2 = reg_values key1 \<and>
           RegSetValueEx_log key1 = RegSetValueEx_log key @
             [(name, make_multi_sz (filter (\<lambda>s. s \<noteq> driver_name r) l @ [driver_name r]))] \<and>
           RegSetValueEx_log key2 = RegSetValueEx_log key1 @
             [(name, make_multi_sz (filter (\<lambda>s. s \<noteq> driver_name r) l @ [driver_name r]))]"
proof -
  define drv where "drv = driver_name r"
  from read_and_split [OF assms(3), of key name] obtain val l where
    val: "read_multi_z sys key name (replicate 4096 0) = Some val"
    and l: "list_all (\<lambda>s. s \<noteq> [] \<and> 0 \<notin> set s) l"
    and split: "\<And>ex exd. split_multi_sz (if val = [] then None else Some val) ex exd =
        Some (filter (\<lambda>s. s \<noteq> ex) l, exd \<or> ex \<in> set l)"
    by blast
  define fs where "fs = filter (\<lambda>s. s \<noteq> drv) l @ [drv]"
  define data where "data = make_multi_sz fs"
  define key1 where "key1 = key\<lparr>RegSetValueEx_log := RegSetValueEx_log key @ [(name, data)],
      reg_values := (reg_values key)(name \<mapsto> data)\<rparr>"
  define key2 where "key2 = key1\<lparr>RegSetValueEx_log := RegSetValueEx_log key1 @ [(name, data)],
      reg_values := (reg_values key1)(name \<mapsto> data)\<rparr>"
  have before: "persisted_list sys key name = Some l"
    by (simp add: persisted_list_def val split filter_nonempty [OF l])
  have first: "classfilter sys r True key = Some (True, key1)"
    unfolding key1_def data_def fs_def drv_def
    by (rule classfilter_add_writes [OF assms(1,2,4,7) val]) (simp add: split)
  have fs: "list_all (\<lambda>s. s \<noteq> [] \<and> 0 \<notin> set s) fs"
    using l assms(5,6) by (simp add: fs_def drv_def list_all_iff)
  have stored1: "reg_values key1 name = Some (make_multi_sz fs)"
    by (simp add: key1_def data_def)
  from read_and_split_encoded [OF assms(3) stored1 fs] obtain val1 where
    val1: "read_multi_z sys key1 name (replicate 4096 0) = Some val1"
    and split1: "\<And>ex exd. split_multi_sz (if val1 = [] then None else Some val1) ex exd =
        Some (filter (\<lambda>s. s \<noteq> ex) fs, exd \<or> ex \<in> set fs)"
    by blast
  have again: "filter (\<lambda>s. s \<noteq> drv) fs @ [drv] = fs"
    by (simp add: fs_def)
  have "classfilter sys r True key1 =
      Some (True, key1\<lparr>RegSetValueEx_log := RegSetValueEx_log key1 @
                 [(name, make_multi_sz (filter (\<lambda>s. s \<noteq> drv) fs @ [driver_name r]))],
               reg_values := (reg_values key1)
                 (name \<mapsto> make_multi_sz (filter (\<lambda>s. s \<noteq> drv) fs @ [driver_name r]))\<rparr>)"
    by (rule classfilter_add_writes [OF assms(1,2,4,7) val1]) (simp add: split1 drv_def)
  then have second: "classfilter sys r True key1 = Some (True, key2)"
    using again by (simp add: key2_def data_def drv_def)
  have after1: "persisted_list sys key1 name = Some fs"
    by (simp add: persisted_list_def val1 split1 filter_nonempty [OF fs])
  have stored2: "reg_values key2 name = Some (make_multi_sz fs)"
    by (simp add: key2_def data_def)
  from read_and_split_encoded [OF assms(3) stored2 fs] obtain val2 where
    val2: "read_multi_z sys key2 name (replicate 4096 0) = Some val2"
    and split2: "\<And>ex exd. split_multi_sz (if val2 = [] then None else Some val2) ex exd =
        Some (filter (\<lambda>s. s \<noteq> ex) fs, exd \<or> ex \<in> set fs)"
    by blast
  have after2: "persisted_list sys key2 name = Some fs"
    by (simp add: persisted_list_def val2 split2 filter_nonempty [OF fs])
  have once: "count_list fs drv = 1"
    by (simp add: fs_def count_list_0_iff)
  have same: "reg_values key2 = reg_values key1"
    by (simp add: key2_def key1_def)
  have log1: "RegSetValueEx_log key1 = RegSetValueEx_log key @ [(name, make_multi_sz fs)]"
    by (simp add: key1_def data_def)
  have log2: "RegSetValueEx_log key2 = RegSetValueEx_log key1 @ [(name, make_multi_sz fs)]"
    by (simp add: key2_def data_def)
  show ?thesis
    using before first second after1 after2 once same log1 log2
    unfolding fs_def drv_def by blast
qed

theorem classfilter_add_twice_witness:
  "get_class_guid ok_os \<and> SetupDiOpenClassRegKeyEx_ok ok_os \<and> \<not> RegGetValue_denied ok_os \<and>
   RegSetValueEx_err ok_os = ERROR_SUCCESS \<and>
   driver_name flt_args \<noteq> [] \<and> 0 \<notin> set (driver_name flt_args) \<and>
   persisted_list ok_os two_filter_key REGSTR_VAL_UPPERFILTERS = Some [flt, [0x61]] \<and>
   (\<exists>key1 key2.
      classfilter ok_os flt_args True two_filter_key = Some (True, key1) \<and>
      classfilter ok_os flt_args True key1 = Some (True, key2) \<and>
      persisted_list ok_os key1 REGSTR_VAL_UPPERFILTERS = Some [[0x61], flt] \<and>
      persisted_list ok_os key2 REGSTR_VAL_UPPERFILTERS = Some [[0x61], flt] \<and>
      count_list [[0x61], flt] flt = 1 \<and>
      reg_values key2 = reg_values key1 \<and>
      RegSetValueEx_log key1 = [(REGSTR_VAL_UPPERFILTERS, make_multi_sz [[0x61], flt])] \<and>
      RegSetValueEx_log key2 =
        [(REGSTR_VAL_UPPERFILTERS, make_multi_sz [[0x61], flt]),
         (REGSTR_VAL_UPPERFILTERS, make_multi_sz [[0x61], flt])])"
proof -
  have drv: "driver_name flt_args \<noteq> []" "0 \<notin> set (driver_name flt_args)"
    by (simp_all add: flt_args_facts)
  have wf: "list_all (\<lambda>s. s \<noteq> [] \<and> 0 \<notin> set s) [flt, [0x61]]"
    by (simp add: flt_def)
  have before: "persisted_list ok_os two_filter_key REGSTR_VAL_UPPERFILTERS = Some [flt, [0x61]]"
    by (rule persisted_list_encoded [OF ok_os_facts(3) _ wf]) (simp add: two_filter_key_def)
  have other: "[0x61] \<noteq> flt"
    by (simp add: flt_def)
  from classfilter_add_twice [OF ok_os_facts drv flt_args_facts(4), of two_filter_key]
  obtain l key1 key2 where
    r: "persisted_list ok_os two_filter_key REGSTR_VAL_UPPERFILTERS = Some l"
      "classfilter ok_os flt_args True two_filter_key = Some (True, key1)"
      "classfilter ok_os flt_args True key1 = Some (True, key2)"
      "persisted_list ok_os key1 REGSTR_VAL_UPPERFILTERS =
         Some (filter (\<lambda>s. s \<noteq> driver_name flt_args) l @ [driver_name flt_args])"
      "persisted_list ok_os key2 REGSTR_VAL_UPPERFILTERS =
         Some (filter (\<lambda>s. s \<noteq> driver_name flt_args) l @ [driver_name flt_args])"
      "count_list (filter (\<lambda>s. s \<noteq> driver_name flt_args) l @ [driver_name flt_args])
         (driver_name flt_args) = 1"
      "reg_values key2 = reg_values key1"
      "RegSetValueEx_log key1 = RegSetValueEx_log two_filter_key @
         [(REGSTR_VAL_UPPERFILTERS,
           make_multi_sz (filter (\<lambda>s. s \<noteq> driver_name flt_args) l @ [driver_name flt_args]))]"
      "RegSetValueEx_log key2 = RegSetValueEx_log key1 @
         [(REGSTR_VAL_UPPERFILTERS,
           make_multi_sz (filter (\<lambda>s. s \<noteq> driver_name flt_args) l @ [driver_name flt_args]))]"
    by blast
  from r(1) before have l: "l = [flt, [0x61]]"
    by simp
  have fs: "filter (\<lambda>s. s \<noteq> driver_name flt_args) l @ [driver_name flt_args] = [[0x61], flt]"
    using other by (simp add: l flt_args_facts(1))
  have log0: "RegSetValueEx_log two_filter_key = []"
    by (simp add: two_filter_key_def)
  have "classfilter ok_os flt_args True two_filter_key = Some (True, key1) \<and>
      classfilter ok_os flt_args True key1 = Some (True, key2) \<and>
      persisted_list ok_os key1 REGSTR_VAL_UPPERFILTERS = Some [[0x61], flt] \<and>
      persisted_list ok_os key2 REGSTR_VAL_UPPERFILTERS = Some [[0x61], flt] \<and>
      count_list [[0x61], flt] flt = 1 \<and>
      reg_values key2 = reg_values key1 \<and>
      RegSetValueEx_log key1 = [(REGSTR_VAL_UPPERFILTERS, make_multi_sz [[0x61], flt])] \<and>
      RegSetValueEx_log key2 =
        [(REGSTR_VAL_UPPERFILTERS, make_multi_sz [[0x61], flt]),
         (REGSTR_VAL_UPPERFILTERS, make_multi_sz [[0x61], flt])]"
    using r(2-9) other unfolding fs log0 by (simp add: flt_args_facts(1))
  then show ?thesis
    using ok_os_facts drv before by blast
qed

section \<open>The transfer-copy helper\<close>

text \<open>
  C10. Let the copy return \<open>status\<close>. For a transfer in the receive direction the
  function returns \<open>status\<close>; when it is \<open>STATUS_SUCCESS\<close> the transfer is returned with
  \<open>TransferBufferLength\<close> set to the header's \<open>actual_length\<close> and nothing else changed,
  and when it is any other status the transfer is returned unchanged. For a transfer that
  is not in the receive direction the function returns \<open>STATUS_SUCCESS\<close>, the copy is
  not called, and the transfer and the memory are returned unchanged.
\<close>

theorem fetch_urbr_bulk_or_interrupt_length:
  assumes "copy_to_transfer_buffer (TransferBuffer urb_bi) (TransferBufferMDL urb_bi)
             (TransferBufferLength urb_bi) (payload hdr) (actual_length hdr) mem = (status, mem')"
  shows
   "(IS_TRANSFER_FLAGS_IN (TransferFlags urb_bi) \<and> status = STATUS_SUCCESS \<longrightarrow>
       fetch_urbr_bulk_or_interrupt IS_TRANSFER_FLAGS_IN copy_to_transfer_buffer urb_bi hdr mem =
         (STATUS_SUCCESS, urb_bi\<lparr>TransferBufferLength := actual_length hdr\<rparr>, mem')) \<and>
    (IS_TRANSFER_FLAGS_IN (TransferFlags urb_bi) \<and> status \<noteq> STATUS_SUCCESS \<longrightarrow>
       fetch_urbr_bulk_or_interrupt IS_TRANSFER_FLAGS_IN copy_to_transfer_buffer urb_bi hdr mem =
         (status, urb_bi, mem')) \<and>
    (\<not> IS_TRANSFER_FLAGS_IN (TransferFlags urb_bi) \<longrightarrow>
       fetch_urbr_bulk_or_interrupt IS_TRANSFER_FLAGS_IN copy_to_transfer_buffer urb_bi hdr mem =
         (STATUS_SUCCESS, urb_bi, mem))"
  using assms by (simp add: fetch_urbr_bulk_or_interrupt_def)

theorem fetch_urbr_bulk_or_interrupt_length_witness:
  "fetch_urbr_bulk_or_interrupt direction_in bounded_copy (sample_urb 3 8) sample_hdr [0, 0, 0] =
     (STATUS_SUCCESS, sample_urb 3 2, [0xAB, 0xCD, 0]) \<and>
   fetch_urbr_bulk_or_interrupt direction_in bounded_copy (sample_urb 3 1) sample_hdr [0, 0, 0] =
     (STATUS_INVALID_PARAMETER, sample_urb 3 1, [0, 0, 0]) \<and>
   fetch_urbr_bulk_or_interrupt direction_in bounded_copy (sample_urb 2 8) sample_hdr [0, 0, 0] =
     (STATUS_SUCCESS, sample_urb 2 8, [0, 0, 0])"
proof -
  have ok: "bounded_copy (TransferBuffer (sample_urb 3 8)) (TransferBufferMDL (sample_urb 3 8))
      (TransferBufferLength (sample_urb 3 8)) (payload sample_hdr) (actual_length sample_hdr)
      [0, 0, 0] = (STATUS_SUCCESS, [0xAB, 0xCD, 0])"
    by (simp add: bounded_copy_def sample_urb_def sample_hdr_def)
  have short: "bounded_copy (TransferBuffer (sample_urb 3 1)) (TransferBufferMDL (sample_urb 3 1))
      (TransferBufferLength (sample_urb 3 1)) (payload sample_hdr) (actual_length sample_hdr)
      [0, 0, 0] = (STATUS_INVALID_PARAMETER, [0, 0, 0])"
    by (simp add: bounded_copy_def sample_urb_def sample_hdr_def)
  have out: "bounded_copy (TransferBuffer (sample_urb 2 8)) (TransferBufferMDL (sample_urb 2 8))
      (TransferBufferLength (sample_urb 2 8)) (payload sample_hdr) (actual_length sample_hdr)
      [0, 0, 0] = (STATUS_SUCCESS, [0xAB, 0xCD, 0])"
    by (simp add: bounded_copy_def sample_urb_def sample_hdr_def)
  have dir: "direction_in (TransferFlags (sample_urb 3 8))"
    "direction_in (TransferFlags (sample_urb 3 1))"
    "\<not> direction_in (TransferFlags (sample_urb 2 8))"
    by (simp_all add: direction_in_def USBD_TRANSFER_DIRECTION_IN_def sample_urb_def)
  have differ: "STATUS_INVALID_PARAMETER \<noteq> STATUS_SUCCESS"
    by (simp add: STATUS_INVALID_PARAMETER_def STATUS_SUCCESS_def)
  have upd: "(sample_urb 3 8)\<lparr>TransferBufferLength := actual_length sample_hdr\<rparr> = sample_urb 3 2"
    by (simp add: sample_urb_def sample_hdr_def)
  note inst = fetch_urbr_bulk_or_interrupt_length
    [where copy_to_transfer_buffer = bounded_copy and hdr = sample_hdr and mem = "[0, 0, 0]"
       and IS_TRANSFER_FLAGS_IN = direction_in]
  from inst [where urb_bi = "sample_urb 3 8", OF ok]
       inst [where urb_bi = "sample_urb 3 1", OF short]
       inst [where urb_bi = "sample_urb 2 8", OF out]
       dir differ upd
  show ?thesis
    by simp
qed

end
